theory Spec2Isabelle
  imports Complex_Main "HOL-Library.AList"
begin

section \<open>ScanningProbeLogic: data model\<close>

text \<open>
  Shallow embedding of \<^verbatim>\<open>qudi/logic/scanning_probe_logic.py\<close>.

  Conventions of the embedding.
  \<^item> A Python \<^verbatim>\<open>dict\<close> keyed by axis names is an association list with distinct keys in
    insertion order; \<^verbatim>\<open>d[k]\<close> is \<open>map_of d k\<close> (a missing key raises \<^verbatim>\<open>KeyError\<close>),
    \<^verbatim>\<open>d[k] = v\<close> is \<open>AList.update k v d\<close>, which keeps the position of an existing key and
    appends a new one, as Python does.
  \<^item> Python floats are the real numbers they denote; \<^verbatim>\<open>np.inf\<close> occurs only as the start
    value of the two accumulators of \<^verbatim>\<open>set_scan_frequency\<close> and is kept there explicitly.
    Python ints are \<open>int\<close>.
  \<^item> Every operation takes the state of the logic module and returns the outcome (the
    returned value, or the exception that leaves the method), the state it leaves behind
    and the list of log entries and Qt signals it has produced, in program order.
  \<^item> The hardware module behind the \<^verbatim>\<open>scanner\<close> connector is a parameter: a record of what
    its methods return during the operation.
  \<^item> The module is active, so \<^verbatim>\<open>module_state()\<close> is \<^verbatim>\<open>'idle'\<close> or \<^verbatim>\<open>'locked'\<close>.
  \<^item> The mutex \<^verbatim>\<open>_thread_lock\<close> is held over each whole operation; operations are atomic
    steps here.
\<close>

type_synonym 'v dict = "(string \<times> 'v) list"

datatype py_error = KeyError | IndexError | ZeroDivisionError

datatype 'a outcome = Returned 'a | Raised py_error

datatype module_state = Idle | Locked

text \<open>
  A scanner axis as \<^verbatim>\<open>ScanningProbeLogic\<close> reads it. The class lives in
  \<^verbatim>\<open>qudi.interface.scanning_probe_interface\<close>; its two methods \<^verbatim>\<open>clip_value\<close> and
  \<^verbatim>\<open>clip_resolution\<close> are fields of function type here, so nothing is assumed about them.
\<close>

record scanner_axis =
  min_value :: real
  max_value :: real
  min_resolution :: int
  max_resolution :: int
  min_frequency :: real
  max_frequency :: real
  clip_value :: "real \<Rightarrow> real"
  clip_resolution :: "int \<Rightarrow> int"

text \<open>\<^verbatim>\<open>ScanData\<close>, the fields the logic reads (the sampled arrays are not inspected by it).\<close>

record scan_data =
  data_scan_axes :: "string list"
  data_scan_range :: "(real \<times> real) list"
  data_scan_resolution :: "int list"
  data_scan_frequency :: real
  is_finished :: bool

text \<open>The dictionary handed to and returned by \<^verbatim>\<open>configure_scan\<close>.\<close>

record scan_settings =
  settings_axes :: "string list"
  settings_range :: "(real \<times> real) list"
  settings_resolution :: "int list"
  settings_frequency :: real

record scanner =
  axes :: "scanner_axis dict"
  configure_scan :: "scan_settings \<Rightarrow> scan_settings"
  start_scan :: int
  stop_scan :: int
  get_scan_data :: scan_data

record config =
  max_history_length :: int
  max_scan_update_interval :: real
  min_scan_update_interval :: real
  position_update_interval :: real

datatype handler = Update_scanner_position_loop | Scan_loop

record timer =
  timeout_handler :: handler
  interval :: int
  single_shot :: bool

record logic_state =
  module_state :: module_state
  scan_ranges :: "(real \<times> real) dict"
  scan_resolution :: "int dict"
  scan_frequency :: real
  scan_history :: "scan_data list"
  curr_history_index :: int
  current_scan :: "string list option"
  scan_update_interval :: real
  timer :: timer

text \<open>The payload of \<^verbatim>\<open>sigScanSettingsChanged\<close>: a dictionary with the keys that were targeted.\<close>

datatype settings_changed =
    Range_changed "(real \<times> real) dict"
  | Resolution_changed "int dict"
  | Frequency_changed real
  | Settings_changed "(real \<times> real) dict" "int dict" real

text \<open>Infinite accumulator values of \<^verbatim>\<open>set_scan_frequency\<close>.\<close>

datatype bound = NegInf | Fin real | PosInf

text \<open>The messages handed to \<^verbatim>\<open>self.log\<close>, with their format arguments.\<close>

datatype message =
    Scan_running_ranges
  | Scan_running_resolution
  | Scan_running_frequency
  | Scan_running_restore
  | Unknown_axis string
  | Frequency_outside_bounds bound bound
  | Axes_must_be_len_1_or_2
  | Axes_mismatch "string list" "string list"
  | Unable_to_start_scanner
  | Scanner_started
  | Timer_stopped
  | Timer_connected
  | Starting_scan_timer
  | Unable_to_stop_waiting
  | Unable_to_stop
  | History_index_out_of_range int

datatype event =
    Log_debug message
  | Log_warning message
  | Log_error message
  | Printed settings_changed
  | SigScanStateChanged bool "string list option"
  | SigScanSettingsChanged settings_changed
  | SigScanDataChanged scan_data
  | SigStartTimer
  | SigStopTimer

type_synonym 'a result = "'a outcome \<times> logic_state \<times> event list"

section \<open>Scan settings\<close>

subsection \<open>\<^verbatim>\<open>set_scan_range\<close>\<close>

text \<open>
  The value stored for one axis: both ends are limited to the value range of the axis,
  and an upper end that falls below the lower end is replaced by it.
\<close>

definition new_range :: "scanner_axis \<Rightarrow> real \<times> real \<Rightarrow> real \<times> real" where
  "new_range c ax_range =
     (let new_range = (min (max_value c) (max (min_value c) (fst ax_range)),
                       min (max_value c) (max (min_value c) (snd ax_range)))
      in if fst new_range > snd new_range then (fst new_range, fst new_range) else new_range)"

text \<open>
  The loop \<^verbatim>\<open>for ax, ax_range in ranges.items()\<close> together with the code after it.
  \<open>keys\<close> are the keys of the whole argument, needed by the final dictionary comprehension.
\<close>

fun set_scan_range_items ::
  "scanner_axis dict \<Rightarrow> string list \<Rightarrow> logic_state \<Rightarrow> (real \<times> real) dict
     \<Rightarrow> (real \<times> real) dict result" where
  "set_scan_range_items ax_constr keys s [] =
     (let new_ranges = filter (\<lambda>(ax, r). ax \<in> set keys) (scan_ranges s)
      in (Returned new_ranges, s, [SigScanSettingsChanged (Range_changed new_ranges)]))"
| "set_scan_range_items ax_constr keys s ((ax, ax_range) # rest) =
     (if map_of (scan_ranges s) ax = None then
        (let new_ranges = scan_ranges s
         in (Returned new_ranges, s,
             [Log_error (Unknown_axis ax), SigScanSettingsChanged (Range_changed new_ranges)]))
      else
        (case map_of ax_constr ax of
           None \<Rightarrow> (Raised KeyError, s, [])
         | Some c \<Rightarrow>
             set_scan_range_items ax_constr keys
               (s\<lparr>scan_ranges := AList.update ax (new_range c ax_range) (scan_ranges s)\<rparr>)
               rest))"

definition set_scan_range ::
  "scanner \<Rightarrow> logic_state \<Rightarrow> (real \<times> real) dict \<Rightarrow> (real \<times> real) dict result" where
  "set_scan_range hw s ranges =
     (if module_state s = Locked then
        (let new_ranges = scan_ranges s
         in (Returned new_ranges, s,
             [Log_warning Scan_running_ranges, SigScanSettingsChanged (Range_changed new_ranges)]))
      else set_scan_range_items (axes hw) (map fst ranges) s ranges)"

subsection \<open>\<^verbatim>\<open>set_scan_resolution\<close>\<close>

fun set_scan_resolution_items ::
  "scanner_axis dict \<Rightarrow> string list \<Rightarrow> logic_state \<Rightarrow> int dict \<Rightarrow> int dict result" where
  "set_scan_resolution_items ax_constr keys s [] =
     (let new_resolution = filter (\<lambda>(ax, r). ax \<in> set keys) (scan_resolution s)
      in (Returned new_resolution, s,
          [SigScanSettingsChanged (Resolution_changed new_resolution)]))"
| "set_scan_resolution_items ax_constr keys s ((ax, ax_res) # rest) =
     (if map_of (scan_resolution s) ax = None then
        (let new_res = scan_resolution s
         in (Returned new_res, s,
             [Log_error (Unknown_axis ax), SigScanSettingsChanged (Resolution_changed new_res)]))
      else
        (case map_of ax_constr ax of
           None \<Rightarrow> (Raised KeyError, s, [])
         | Some c \<Rightarrow>
             set_scan_resolution_items ax_constr keys
               (s\<lparr>scan_resolution :=
                    AList.update ax (min (max_resolution c) (max (min_resolution c) ax_res))
                      (scan_resolution s)\<rparr>) rest))"

definition set_scan_resolution ::
  "scanner \<Rightarrow> logic_state \<Rightarrow> int dict \<Rightarrow> int dict result" where
  "set_scan_resolution hw s resolution =
     (if module_state s = Locked then
        (let new_res = scan_resolution s
         in (Returned new_res, s,
             [Log_warning Scan_running_resolution,
              SigScanSettingsChanged (Resolution_changed new_res)]))
      else set_scan_resolution_items (axes hw) (map fst resolution) s resolution)"

subsection \<open>\<^verbatim>\<open>set_scan_frequency\<close>\<close>

text \<open>\<^verbatim>\<open><\<close> and \<^verbatim>\<open><=\<close> on floats that may be infinite.\<close>

fun bound_less :: "bound \<Rightarrow> bound \<Rightarrow> bool" where
  "bound_less NegInf b = (b \<noteq> NegInf)"
| "bound_less (Fin a) NegInf = False"
| "bound_less (Fin a) (Fin b) = (a < b)"
| "bound_less (Fin a) PosInf = True"
| "bound_less PosInf b = False"

fun bound_le :: "bound \<Rightarrow> bound \<Rightarrow> bool" where
  "bound_le a b = (a = b \<or> bound_less a b)"

text \<open>
  The loop over \<^verbatim>\<open>self.scanner_constraints.axes.values()\<close>, from the accumulators
  \<^verbatim>\<open>min_freq, max_freq = np.inf, -np.inf\<close>.
\<close>

fun frequency_bounds :: "scanner_axis list \<Rightarrow> bound \<times> bound \<Rightarrow> bound \<times> bound" where
  "frequency_bounds [] acc = acc"
| "frequency_bounds (axis # rest) (min_freq, max_freq) =
     frequency_bounds rest
       (if bound_less (Fin (min_frequency axis)) min_freq
          then Fin (min_frequency axis) else min_freq,
        if bound_less max_freq (Fin (max_frequency axis))
          then Fin (max_frequency axis) else max_freq)"

definition set_scan_frequency :: "scanner \<Rightarrow> logic_state \<Rightarrow> real \<Rightarrow> real result" where
  "set_scan_frequency hw s frequency =
     (if module_state s = Locked then
        (Returned (scan_frequency s), s,
         [Log_warning Scan_running_frequency,
          SigScanSettingsChanged (Frequency_changed (scan_frequency s))])
      else
        (case frequency_bounds (map snd (axes hw)) (PosInf, NegInf) of
           (min_freq, max_freq) \<Rightarrow>
             if bound_le min_freq (Fin frequency) \<and> bound_le (Fin frequency) max_freq then
               (Returned frequency, s\<lparr>scan_frequency := frequency\<rparr>,
                [SigScanSettingsChanged (Frequency_changed frequency)])
             else
               (Returned (scan_frequency s), s,
                [Log_error (Frequency_outside_bounds min_freq max_freq),
                 SigScanSettingsChanged (Frequency_changed (scan_frequency s))])))"

section \<open>Scan history\<close>

text \<open>
  \<^verbatim>\<open>while len(self._scan_history) >= self._max_history_length: self._scan_history.pop(0)\<close>.
  \<^verbatim>\<open>pop(0)\<close> on the empty list raises \<^verbatim>\<open>IndexError\<close>; the list that is left is returned in
  both cases.
\<close>

fun evict_oldest :: "'a list \<Rightarrow> int \<Rightarrow> py_error option \<times> 'a list" where
  "evict_oldest [] max_len = (if 0 \<ge> max_len then (Some IndexError, []) else (None, []))"
| "evict_oldest (x # xs) max_len =
     (if int (length (x # xs)) \<ge> max_len then evict_oldest xs max_len else (None, x # xs))"

text \<open>Python's \<^verbatim>\<open>xs[i]\<close> on a list: a negative index counts from the end.\<close>

definition py_getitem :: "'a list \<Rightarrow> int \<Rightarrow> py_error + 'a" where
  "py_getitem xs i =
     (if 0 \<le> i \<and> i < int (length xs) then Inr (xs ! nat i)
      else if i < 0 \<and> - int (length xs) \<le> i then Inr (xs ! nat (i + int (length xs)))
      else Inl IndexError)"

text \<open>The loop \<^verbatim>\<open>for i, ax in enumerate(data.scan_axes)\<close> of \<^verbatim>\<open>restore_from_history\<close>.\<close>

fun restore_axes ::
  "scanner_axis dict \<Rightarrow> scan_data \<Rightarrow> nat \<Rightarrow> string list \<Rightarrow> logic_state
     \<Rightarrow> py_error option \<times> logic_state" where
  "restore_axes ax_constr data i [] s = (None, s)"
| "restore_axes ax_constr data i (ax # rest) s =
     (case map_of ax_constr ax of
        None \<Rightarrow> (Some KeyError, s)
      | Some constr \<Rightarrow>
          (case py_getitem (data_scan_resolution data) (int i) of
             Inl e \<Rightarrow> (Some e, s)
           | Inr res \<Rightarrow>
               (let s1 = s\<lparr>scan_resolution :=
                            AList.update ax (clip_resolution constr res) (scan_resolution s)\<rparr>
                in case py_getitem (data_scan_range data) (int i) of
                     Inl e \<Rightarrow> (Some e, s1)
                   | Inr rng \<Rightarrow>
                       restore_axes ax_constr data (Suc i) rest
                         (s1\<lparr>scan_ranges :=
                               AList.update ax (clip_value constr (fst rng),
                                                clip_value constr (snd rng))
                                 (scan_ranges s1)\<rparr>))))"

definition restore_from_history :: "scanner \<Rightarrow> logic_state \<Rightarrow> int \<Rightarrow> unit result" where
  "restore_from_history hw s index =
     (if module_state s \<noteq> Idle then (Returned (), s, [Log_error Scan_running_restore])
      else
        (case py_getitem (scan_history s) index of
           Inl e \<Rightarrow> (Returned (), s, [Log_error (History_index_out_of_range index)])
         | Inr data \<Rightarrow>
             (case restore_axes (axes hw) data 0 (data_scan_axes data) s of
                (Some e, s1) \<Rightarrow> (Raised e, s1, [])
              | (None, s1) \<Rightarrow>
                  (let s2 = s1\<lparr>scan_frequency := data_scan_frequency data,
                               curr_history_index := index\<rparr>;
                       settings = Settings_changed (scan_ranges s2) (scan_resolution s2)
                                    (scan_frequency s2)
                   in (Returned (), s2,
                       [Printed settings, SigScanSettingsChanged settings,
                        SigScanDataChanged data])))))"

section \<open>Acquisition state machine\<close>

text \<open>Python's \<^verbatim>\<open>round\<close> on a float: to the nearest integer, ties to the even one.\<close>

definition py_round :: "real \<Rightarrow> int" where
  "py_round x =
     (let f = \<lfloor>x\<rfloor>; d = x - of_int f
      in if d < 1 / 2 then f else if d > 1 / 2 then f + 1 else if even f then f else f + 1)"

text \<open>\<^verbatim>\<open>tuple(d[ax] for ax in scan_axes)\<close>: the first missing key raises \<^verbatim>\<open>KeyError\<close>.\<close>

fun lookup_all :: "'v dict \<Rightarrow> string list \<Rightarrow> 'v list option" where
  "lookup_all d [] = Some []"
| "lookup_all d (ax # rest) =
     (case map_of d ax of
        None \<Rightarrow> None
      | Some v \<Rightarrow> (case lookup_all d rest of None \<Rightarrow> None | Some vs \<Rightarrow> Some (v # vs)))"

text \<open>
  The loop \<^verbatim>\<open>for ax_index, ax in enumerate(scan_axes)\<close> of \<^verbatim>\<open>toggle_scan\<close>: the stored range
  and resolution of each scanned axis are overwritten by what the scanner has accepted,
  with one signal per value that differs.
\<close>

fun update_from_scanner ::
  "scan_settings \<Rightarrow> nat \<Rightarrow> string list \<Rightarrow> logic_state
     \<Rightarrow> py_error option \<times> logic_state \<times> event list" where
  "update_from_scanner new_settings ax_index [] s = (None, s, [])"
| "update_from_scanner new_settings ax_index (ax # rest) s =
     (case map_of (scan_ranges s) ax of
        None \<Rightarrow> (Some KeyError, s, [])
      | Some old \<Rightarrow>
          (case py_getitem (settings_range new_settings) (int ax_index) of
             Inl e \<Rightarrow> (Some e, s, [])
           | Inr new \<Rightarrow>
               (let (s1, ev1) =
                      (if fst old \<noteq> fst new \<or> snd old \<noteq> snd new then
                         (s\<lparr>scan_ranges := AList.update ax new (scan_ranges s)\<rparr>,
                          [SigScanSettingsChanged (Range_changed [(ax, new)])])
                       else (s, []))
                in case map_of (scan_resolution s1) ax of
                     None \<Rightarrow> (Some KeyError, s1, ev1)
                   | Some old_res \<Rightarrow>
                       (case py_getitem (settings_resolution new_settings) (int ax_index) of
                          Inl e \<Rightarrow> (Some e, s1, ev1)
                        | Inr new_res \<Rightarrow>
                            (let (s2, ev2) =
                                   (if old_res \<noteq> new_res then
                                      (s1\<lparr>scan_resolution :=
                                            AList.update ax new_res (scan_resolution s1)\<rparr>,
                                       [SigScanSettingsChanged
                                          (Resolution_changed [(ax, new_res)])])
                                    else (s1, []))
                             in case update_from_scanner new_settings (Suc ax_index) rest s2 of
                                  (r, s3, ev3) \<Rightarrow> (r, s3, ev1 @ ev2 @ ev3))))))"

text \<open>
  \<^verbatim>\<open>line_points = self._scan_resolution[scan_axes[0]] if len(scan_axes) > 1 else 1\<close>
\<close>

definition line_points :: "logic_state \<Rightarrow> string list \<Rightarrow> py_error + int" where
  "line_points s scan_axes =
     (if length scan_axes > 1 then
        (case map_of (scan_resolution s) (hd scan_axes) of
           None \<Rightarrow> Inl KeyError
         | Some r \<Rightarrow> Inr r)
      else Inr 1)"

text \<open>The tail of the start branch, from the computation of the update interval on.\<close>

definition start_scanner ::
  "config \<Rightarrow> scanner \<Rightarrow> logic_state \<Rightarrow> string list \<Rightarrow> event list \<Rightarrow> int result" where
  "start_scanner cfg hw s scan_axes ev =
     (case line_points s scan_axes of
        Inl e \<Rightarrow> (Raised e, s, ev)
      | Inr lp \<Rightarrow>
          if scan_frequency s = 0 then (Raised ZeroDivisionError, s, ev)
          else
            (let s1 = s\<lparr>scan_update_interval :=
                         max (min_scan_update_interval cfg)
                           (min (max_scan_update_interval cfg)
                              (real_of_int lp / scan_frequency s))\<rparr>
             in if start_scan hw < 0 then
                  (Returned (- 1), s1\<lparr>module_state := Idle\<rparr>,
                   ev @ [Log_error Unable_to_start_scanner,
                         SigScanStateChanged False (current_scan s1)])
                else
                  (Returned 0,
                   s1\<lparr>timer := \<lparr>timeout_handler = Scan_loop,
                                interval = py_round (scan_update_interval s1 * 1000),
                                single_shot = True\<rparr>\<rparr>,
                   ev @ [Log_debug Scanner_started, SigStopTimer, Log_debug Timer_stopped,
                         Log_debug Timer_connected,
                         SigScanStateChanged True (current_scan s1),
                         Log_debug Starting_scan_timer, SigStartTimer])))"

text \<open>The branch \<^verbatim>\<open>if start:\<close> of \<^verbatim>\<open>toggle_scan\<close>.\<close>

definition toggle_scan_start ::
  "config \<Rightarrow> scanner \<Rightarrow> logic_state \<Rightarrow> string list option \<Rightarrow> int result" where
  "toggle_scan_start cfg hw s scan_axes_opt =
     (case scan_axes_opt of
        None \<Rightarrow> (Returned (- 1), s, [Log_error Axes_must_be_len_1_or_2])
      | Some scan_axes \<Rightarrow>
          if \<not> (0 < length scan_axes \<and> length scan_axes < 3) then
            (Returned (- 1), s, [Log_error Axes_must_be_len_1_or_2])
          else
            (let s1 = s\<lparr>module_state := Locked, current_scan := Some scan_axes\<rparr>
             in case lookup_all (scan_ranges s1) scan_axes of
                  None \<Rightarrow> (Raised KeyError, s1, [])
                | Some rngs \<Rightarrow>
                    (case lookup_all (scan_resolution s1) scan_axes of
                       None \<Rightarrow> (Raised KeyError, s1, [])
                     | Some ress \<Rightarrow>
                         (let settings = \<lparr>settings_axes = scan_axes,
                                          settings_range = rngs,
                                          settings_resolution = ress,
                                          settings_frequency = scan_frequency s1\<rparr>;
                              new_settings = configure_scan hw settings
                          in if settings_axes new_settings \<noteq> scan_axes then
                               (Returned (- 1), s1\<lparr>module_state := Idle\<rparr>,
                                [Log_error (Axes_mismatch (settings_axes new_settings) scan_axes),
                                 SigScanStateChanged False (current_scan s1)])
                             else
                               (case update_from_scanner new_settings 0 scan_axes s1 of
                                  (Some e, s2, ev) \<Rightarrow> (Raised e, s2, ev)
                                | (None, s2, ev) \<Rightarrow>
                                    (let new = settings_frequency new_settings;
                                         (s3, ev3) =
                                           (if scan_frequency s2 \<noteq> new then
                                              (s2\<lparr>scan_frequency := new\<rparr>,
                                               ev @ [SigScanSettingsChanged
                                                       (Frequency_changed new)])
                                            else (s2, ev))
                                     in start_scanner cfg hw s3 scan_axes ev3))))))"

text \<open>The timer as it is set up for the idle state (\<^verbatim>\<open>_update_scanner_position_loop\<close>).\<close>

definition position_timer :: "config \<Rightarrow> timer" where
  "position_timer cfg =
     \<lparr>timeout_handler = Update_scanner_position_loop,
      interval = py_round (position_update_interval cfg * 1000),
      single_shot = True\<rparr>"

text \<open>Appending a frame to the history, as both \<^verbatim>\<open>toggle_scan\<close> and \<^verbatim>\<open>_scan_loop\<close> do.\<close>

definition append_history ::
  "config \<Rightarrow> logic_state \<Rightarrow> scan_data \<Rightarrow> py_error option \<times> logic_state" where
  "append_history cfg s data =
     (case evict_oldest (scan_history s) (max_history_length cfg) of
        (Some e, h) \<Rightarrow> (Some e, s\<lparr>scan_history := h\<rparr>)
      | (None, h) \<Rightarrow>
          (None, s\<lparr>scan_history := h @ [data],
                  curr_history_index := int (length (h @ [data])) - 1\<rparr>))"

text \<open>The branch \<^verbatim>\<open>else:\<close> (stop) of \<^verbatim>\<open>toggle_scan\<close>.\<close>

definition toggle_scan_stop :: "config \<Rightarrow> scanner \<Rightarrow> logic_state \<Rightarrow> int result" where
  "toggle_scan_stop cfg hw s =
     (let data = get_scan_data hw
      in case append_history cfg s data of
           (Some e, s1) \<Rightarrow> (Raised e, s1, [])
         | (None, s1) \<Rightarrow>
             if stop_scan hw < 0 then
               (Returned (- 1), s1,
                [SigScanDataChanged data, Log_error Unable_to_stop_waiting,
                 SigScanStateChanged True (current_scan s1)])
             else
               (Returned 0, s1\<lparr>timer := position_timer cfg, module_state := Idle\<rparr>,
                [SigScanDataChanged data, SigStopTimer,
                 SigScanStateChanged False (current_scan s1), SigStartTimer]))"

definition toggle_scan ::
  "config \<Rightarrow> scanner \<Rightarrow> logic_state \<Rightarrow> bool \<Rightarrow> string list option \<Rightarrow> int result" where
  "toggle_scan cfg hw s start scan_axes =
     (if start \<and> module_state s \<noteq> Idle then
        (Returned 0, s, [SigScanStateChanged True (current_scan s)])
      else if \<not> start \<and> module_state s = Idle then
        (Returned 0, s, [SigScanStateChanged True (current_scan s)])
      else if start then toggle_scan_start cfg hw s scan_axes
      else toggle_scan_stop cfg hw s)"

text \<open>\<^verbatim>\<open>_scan_loop\<close>, the handler of the timer while a scan runs.\<close>

definition scan_loop :: "config \<Rightarrow> scanner \<Rightarrow> logic_state \<Rightarrow> unit result" where
  "scan_loop cfg hw s =
     (if module_state s \<noteq> Locked then (Returned (), s, [])
      else
        (let data = get_scan_data hw
         in if is_finished data then
              (let ev = (if stop_scan hw < 0 then [Log_error Unable_to_stop] else [])
                          @ [SigStopTimer, SigScanStateChanged False (current_scan s)];
                   s1 = s\<lparr>timer := position_timer cfg, module_state := Idle\<rparr>
               in case append_history cfg s1 data of
                    (Some e, s2) \<Rightarrow> (Raised e, s2, ev)
                  | (None, s2) \<Rightarrow>
                      (Returned (), s2,
                       ev @ [SigStartTimer, SigScanDataChanged data, SigStartTimer]))
            else (Returned (), s, [SigScanDataChanged data, SigStartTimer])))"

section \<open>Frequency bounds as the specification words them\<close>

text \<open>
  The specification's reading: the frequency lies in the interval
  \<open>[min_frequency, max_frequency]\<close> of every axis.
\<close>

definition in_every_frequency_range :: "scanner \<Rightarrow> real \<Rightarrow> bool" where
  "in_every_frequency_range hw f =
     list_all (\<lambda>axis. min_frequency axis \<le> f \<and> f \<le> max_frequency axis) (map snd (axes hw))"

text \<open>
  The widest bounds: from the smallest \<open>min_frequency\<close> of any axis to the largest
  \<open>max_frequency\<close> of any axis (no frequency at all when there is no axis).
\<close>

definition in_widest_frequency_bounds :: "scanner \<Rightarrow> real \<Rightarrow> bool" where
  "in_widest_frequency_bounds hw f =
     (axes hw \<noteq> []
      \<and> Min (set (map (min_frequency \<circ> snd) (axes hw))) \<le> f
      \<and> f \<le> Max (set (map (max_frequency \<circ> snd) (axes hw))))"

section \<open>History and update interval as the specification words them\<close>

text \<open>
  The specification's \<open>append(frame)\<close>: oldest entries are dropped from the front until
  there is room, the frame is put at the end, the ring is within its bound, and the
  cursor is the newest index.
\<close>

definition spec_append_result ::
  "config \<Rightarrow> scan_data \<Rightarrow> logic_state \<Rightarrow> logic_state \<Rightarrow> bool" where
  "spec_append_result cfg data s s' =
     (int (length (scan_history s')) \<le> max_history_length cfg
      \<and> scan_history s' =
          drop (length (scan_history s) + 1 - nat (max_history_length cfg)) (scan_history s)
            @ [data]
      \<and> curr_history_index s' = int (length (scan_history s')) - 1)"

text \<open>
  The specification's \<open>lineLength\<close>: the resolution of the first scanned axis when two
  axes are scanned, 1 when one axis is scanned.
\<close>

definition spec_line_length :: "logic_state \<Rightarrow> string list \<Rightarrow> real option" where
  "spec_line_length s scan_axes =
     (if length scan_axes = 2 then
        map_option real_of_int (map_of (scan_resolution s) (scan_axes ! 0))
      else if length scan_axes = 1 then Some 1
      else None)"

text \<open>The specification's \<open>clamp(x, lo, hi)\<close>, for \<open>lo \<le> hi\<close>.\<close>

definition spec_clamp :: "real \<Rightarrow> real \<Rightarrow> real \<Rightarrow> real" where
  "spec_clamp x lo hi = (if x < lo then lo else if hi < x then hi else x)"

section \<open>A concrete set-up\<close>

text \<open>
  Two axes, a scanner that accepts every configuration as requested and starts and stops
  without error, and the configuration defaults of the module.
\<close>

definition demo_axis_x :: scanner_axis where
  "demo_axis_x =
     \<lparr>min_value = 0, max_value = 1, min_resolution = 1, max_resolution = 1000,
      min_frequency = 1, max_frequency = 1000000,
      clip_value = (\<lambda>v. min 1 (max 0 v)), clip_resolution = (\<lambda>r. min 1000 (max 1 r))\<rparr>"

definition demo_axis_y :: scanner_axis where
  "demo_axis_y =
     \<lparr>min_value = 0, max_value = 1, min_resolution = 1, max_resolution = 1000,
      min_frequency = 10, max_frequency = 2000000,
      clip_value = (\<lambda>v. min 1 (max 0 v)), clip_resolution = (\<lambda>r. min 1000 (max 1 r))\<rparr>"

definition demo_frame :: "real \<Rightarrow> scan_data" where
  "demo_frame f =
     \<lparr>data_scan_axes = [''x'', ''y''], data_scan_range = [(0, 1), (0, 1)],
      data_scan_resolution = [50, 50], data_scan_frequency = f, is_finished = False\<rparr>"

definition demo_scanner :: scanner where
  "demo_scanner =
     \<lparr>axes = [(''x'', demo_axis_x), (''y'', demo_axis_y)],
      configure_scan = (\<lambda>settings. settings),
      start_scan = 0, stop_scan = 0, get_scan_data = demo_frame 100\<rparr>"

definition demo_config :: config where
  "demo_config =
     \<lparr>max_history_length = 10, max_scan_update_interval = 5,
      min_scan_update_interval = 1 / 4, position_update_interval = 1\<rparr>"

definition demo_state :: logic_state where
  "demo_state =
     \<lparr>module_state = Idle,
      scan_ranges = [(''x'', (0, 1)), (''y'', (0, 1))],
      scan_resolution = [(''x'', 50), (''y'', 50)],
      scan_frequency = 100,
      scan_history = [],
      curr_history_index = 0,
      current_scan = None,
      scan_update_interval = 0,
      timer = \<lparr>timeout_handler = Update_scanner_position_loop, interval = 1000,
               single_shot = True\<rparr>\<rparr>"

definition demo_running :: logic_state where
  "demo_running =
     demo_state\<lparr>module_state := Locked, current_scan := Some [''x'', ''y''],
                scan_update_interval := 1 / 2,
                timer := \<lparr>timeout_handler = Scan_loop, interval = 500, single_shot = True\<rparr>\<rparr>"

definition demo_with_history :: logic_state where
  "demo_with_history =
     demo_state\<lparr>scan_history := [demo_frame 7, demo_frame 9], curr_history_index := 1\<rparr>"

definition demo_running_full :: logic_state where
  "demo_running_full =
     demo_running\<lparr>scan_history := [demo_frame 7, demo_frame 9], curr_history_index := 1\<rparr>"

definition demo_small_config :: config where
  "demo_small_config = demo_config\<lparr>max_history_length := 2\<rparr>"

definition demo_finished_scanner :: scanner where
  "demo_finished_scanner =
     demo_scanner\<lparr>get_scan_data := (demo_frame 100)\<lparr>is_finished := True\<rparr>\<rparr>"

definition demo_stuck_scanner :: scanner where
  "demo_stuck_scanner = demo_scanner\<lparr>stop_scan := - 1\<rparr>"

text \<open>A ring without room, and a position interval of 1.6 ms.\<close>

definition demo_zero_config :: config where
  "demo_zero_config = demo_config\<lparr>max_history_length := 0\<rparr>"

definition demo_fast_config :: config where
  "demo_fast_config = demo_small_config\<lparr>position_update_interval := 2 / 1250\<rparr>"

section \<open>Settings are frozen while a scan runs\<close>

text \<open>
  Claim C9. While the module is locked (a scan is running), \<^verbatim>\<open>set_scan_range\<close>,
  \<^verbatim>\<open>set_scan_resolution\<close> and \<^verbatim>\<open>set_scan_frequency\<close> leave the whole state as it is, whatever
  their argument: each returns the stored value(s) unchanged, logs one warning and emits
  the stored value(s) in \<^verbatim>\<open>sigScanSettingsChanged\<close>.
\<close>

theorem setters_are_noops_while_locked:
  assumes "module_state s = Locked"
  shows "set_scan_range hw s ranges =
           (Returned (scan_ranges s), s,
            [Log_warning Scan_running_ranges,
             SigScanSettingsChanged (Range_changed (scan_ranges s))])
       \<and> set_scan_resolution hw s resolution =
           (Returned (scan_resolution s), s,
            [Log_warning Scan_running_resolution,
             SigScanSettingsChanged (Resolution_changed (scan_resolution s))])
       \<and> set_scan_frequency hw s frequency =
           (Returned (scan_frequency s), s,
            [Log_warning Scan_running_frequency,
             SigScanSettingsChanged (Frequency_changed (scan_frequency s))])"
  using assms
  by (simp add: set_scan_range_def set_scan_resolution_def set_scan_frequency_def Let_def)

theorem setters_are_noops_while_locked_witness:
  "module_state demo_running = Locked
   \<and> set_scan_range demo_scanner demo_running [(''x'', (- 1, 2))] =
       (Returned [(''x'', (0, 1)), (''y'', (0, 1))], demo_running,
        [Log_warning Scan_running_ranges,
         SigScanSettingsChanged (Range_changed [(''x'', (0, 1)), (''y'', (0, 1))])])
   \<and> set_scan_resolution demo_scanner demo_running [(''x'', 7)] =
       (Returned [(''x'', 50), (''y'', 50)], demo_running,
        [Log_warning Scan_running_resolution,
         SigScanSettingsChanged (Resolution_changed [(''x'', 50), (''y'', 50)])])
   \<and> set_scan_frequency demo_scanner demo_running 200 =
       (Returned 100, demo_running,
        [Log_warning Scan_running_frequency,
         SigScanSettingsChanged (Frequency_changed 100)])"
  using setters_are_noops_while_locked
          [of demo_running demo_scanner "[(''x'', (- 1, 2))]" "[(''x'', 7)]" 200]
  by (simp add: demo_running_def demo_state_def)

section \<open>Starting and stopping\<close>

text \<open>
  Claim C10. \<^verbatim>\<open>toggle_scan(False)\<close> while the module is idle returns 0 and changes nothing,
  and the one signal it emits is \<^verbatim>\<open>sigScanStateChanged(True, self.__current_scan)\<close>: it says
  \<^verbatim>\<open>True\<close> although no scan is running, with the axes of the last scan (\<^verbatim>\<open>None\<close> if there
  has been none).
\<close>

theorem stop_while_idle_signals_running:
  assumes "module_state s = Idle"
  shows "toggle_scan cfg hw s False scan_axes =
           (Returned 0, s, [SigScanStateChanged True (current_scan s)])"
  using assms by (simp add: toggle_scan_def)

theorem stop_while_idle_signals_running_witness:
  "module_state demo_state = Idle
   \<and> toggle_scan demo_config demo_scanner demo_state False None =
       (Returned 0, demo_state, [SigScanStateChanged True None])"
  using stop_while_idle_signals_running [of demo_state demo_config demo_scanner None]
  by (simp add: demo_state_def)

text \<open>
  Claim C6. \<^verbatim>\<open>toggle_scan(True, axes)\<close> while a scan is running returns 0, emits
  \<^verbatim>\<open>sigScanStateChanged(True, self.__current_scan)\<close> with the axes of the running scan and
  leaves the whole state as it is. While idle, a tuple of axes whose length is neither 1
  nor 2 is refused: an error is logged, -1 is returned and the state, still idle, is
  unchanged.
\<close>

theorem start_is_idempotent_and_checks_axes:
  "(module_state s = Locked \<longrightarrow>
      toggle_scan cfg hw s True scan_axes =
        (Returned 0, s, [SigScanStateChanged True (current_scan s)]))
   \<and> (module_state s = Idle \<and> length axs \<noteq> 1 \<and> length axs \<noteq> 2 \<longrightarrow>
      toggle_scan cfg hw s True (Some axs) =
        (Returned (- 1), s, [Log_error Axes_must_be_len_1_or_2]))"
proof -
  have "length axs \<noteq> 1 \<and> length axs \<noteq> 2 \<Longrightarrow> \<not> (0 < length axs \<and> length axs < 3)"
    by arith
  then show ?thesis
    by (simp add: toggle_scan_def toggle_scan_start_def)
qed

theorem start_is_idempotent_and_checks_axes_witness:
  "module_state demo_running = Locked
   \<and> toggle_scan demo_config demo_scanner demo_running True (Some [''x'']) =
       (Returned 0, demo_running, [SigScanStateChanged True (Some [''x'', ''y''])])
   \<and> module_state demo_state = Idle
   \<and> length [''x'', ''y'', ''z''] \<noteq> 1 \<and> length [''x'', ''y'', ''z''] \<noteq> 2
   \<and> toggle_scan demo_config demo_scanner demo_state True (Some [''x'', ''y'', ''z'']) =
       (Returned (- 1), demo_state, [Log_error Axes_must_be_len_1_or_2])"
  using start_is_idempotent_and_checks_axes
          [of demo_running demo_config demo_scanner "Some [''x'']" "[]"]
        start_is_idempotent_and_checks_axes
          [of demo_state demo_config demo_scanner None "[''x'', ''y'', ''z'']"]
  by (simp add: demo_running_def demo_state_def)

section \<open>Which frequencies are accepted\<close>

lemma Min_insert_insert:
  fixes a b :: real
  assumes "finite S"
  shows "Min (insert (min a b) S) = Min (insert a (insert b S))"
  using assms by (cases "S = {}") (simp_all add: min.assoc)

lemma Max_insert_insert:
  fixes a b :: real
  assumes "finite S"
  shows "Max (insert (max a b) S) = Max (insert a (insert b S))"
  using assms by (cases "S = {}") (simp_all add: max.assoc)

lemma frequency_bounds_Fin:
  "frequency_bounds axs (Fin a, Fin b) =
     (Fin (Min (insert a (set (map min_frequency axs)))),
      Fin (Max (insert b (set (map max_frequency axs)))))"
proof (induction axs arbitrary: a b)
  case Nil
  then show ?case by simp
next
  case (Cons x xs)
  have lo: "(if min_frequency x < a then min_frequency x else a) = min (min_frequency x) a"
    by (simp add: min_def)
  have hi: "(if b < max_frequency x then max_frequency x else b) = max (max_frequency x) b"
    by (simp add: max_def)
  show ?case
    by (simp add: Cons.IH if_distrib [of Fin, symmetric] lo hi Min_insert_insert
          Max_insert_insert insert_commute del: Min_insert Max_insert)
qed

lemma frequency_bounds_start:
  "frequency_bounds axs (PosInf, NegInf) =
     (if axs = [] then (PosInf, NegInf)
      else (Fin (Min (set (map min_frequency axs))), Fin (Max (set (map max_frequency axs)))))"
  by (cases axs) (simp_all add: frequency_bounds_Fin)

text \<open>
  Claim C2, as stated, fails: the loop of \<^verbatim>\<open>set_scan_frequency\<close> keeps the smallest
  \<^verbatim>\<open>min_frequency\<close> and the largest \<^verbatim>\<open>max_frequency\<close> (its comment calls them the maximum
  possible bounds), not the intersection of the intervals. With the axes \<open>x\<close> (1 Hz to
  1 MHz) and \<open>y\<close> (10 Hz to 2 MHz), 5 Hz is outside the interval of \<open>y\<close> and is accepted.
\<close>

theorem set_scan_frequency_intersection_counterexample:
  "module_state demo_state = Idle
   \<and> \<not> in_every_frequency_range demo_scanner 5
   \<and> set_scan_frequency demo_scanner demo_state 5 =
       (Returned 5, demo_state\<lparr>scan_frequency := 5\<rparr>,
        [SigScanSettingsChanged (Frequency_changed 5)])
   \<and> scan_frequency (demo_state\<lparr>scan_frequency := 5\<rparr>) \<noteq> scan_frequency demo_state"
  by (simp add: demo_state_def demo_scanner_def demo_axis_x_def demo_axis_y_def
        in_every_frequency_range_def set_scan_frequency_def)

text \<open>
  Claim C2, amended. While idle, \<^verbatim>\<open>set_scan_frequency(f)\<close> stores \<open>f\<close> exactly when there is
  an axis and \<open>f\<close> lies between the smallest \<open>min_frequency\<close> and the largest
  \<open>max_frequency\<close> over all axes. Otherwise the stored frequency stays as it is (it is not
  clipped), an error naming the two bounds is logged, and the stored frequency is returned
  and emitted.
\<close>

theorem set_scan_frequency_accepts_widest_bounds:
  assumes "module_state s = Idle"
  shows "set_scan_frequency hw s f =
           (if in_widest_frequency_bounds hw f then
              (Returned f, s\<lparr>scan_frequency := f\<rparr>,
               [SigScanSettingsChanged (Frequency_changed f)])
            else
              (Returned (scan_frequency s), s,
               [Log_error (Frequency_outside_bounds
                             (fst (frequency_bounds (map snd (axes hw)) (PosInf, NegInf)))
                             (snd (frequency_bounds (map snd (axes hw)) (PosInf, NegInf)))),
                SigScanSettingsChanged (Frequency_changed (scan_frequency s))]))"
  using assms
  by (auto simp: set_scan_frequency_def in_widest_frequency_bounds_def frequency_bounds_start
        comp_def)

theorem set_scan_frequency_accepts_widest_bounds_witness:
  "module_state demo_state = Idle
   \<and> set_scan_frequency demo_scanner demo_state 1000000000 =
       (Returned 100, demo_state,
        [Log_error (Frequency_outside_bounds (Fin 1) (Fin 2000000)),
         SigScanSettingsChanged (Frequency_changed 100)])
   \<and> set_scan_frequency demo_scanner demo_state 5 =
       (Returned 5, demo_state\<lparr>scan_frequency := 5\<rparr>,
        [SigScanSettingsChanged (Frequency_changed 5)])"
  using set_scan_frequency_accepts_widest_bounds [of demo_state demo_scanner 1000000000]
        set_scan_frequency_accepts_widest_bounds [of demo_state demo_scanner 5]
  by (simp add: demo_state_def demo_scanner_def demo_axis_x_def demo_axis_y_def
        in_widest_frequency_bounds_def)

section \<open>Setting scan ranges\<close>

text \<open>The loop changes nothing but the stored ranges, and never adds or removes an axis.\<close>

lemma set_scan_range_items_only_ranges:
  "set_scan_range_items c keys s m = (r, s', ev) \<Longrightarrow> s' = s\<lparr>scan_ranges := scan_ranges s'\<rparr>"
proof (induction m arbitrary: s)
  case Nil
  then show ?case by (auto simp: Let_def)
next
  case (Cons p m)
  obtain ax rng where p: "p = (ax, rng)" by (cases p)
  show ?case
  proof (cases "map_of (scan_ranges s) ax = None")
    case True
    with Cons.prems p show ?thesis by (auto simp: Let_def)
  next
    case known: False
    show ?thesis
    proof (cases "map_of c ax")
      case None
      with Cons.prems p known show ?thesis by auto
    next
      case (Some a)
      with Cons.prems p known
      have "set_scan_range_items c keys
              (s\<lparr>scan_ranges := AList.update ax (new_range a rng) (scan_ranges s)\<rparr>) m =
            (r, s', ev)"
        by simp
      from Cons.IH [OF this] show ?thesis by (cases s, cases s') simp
    qed
  qed
qed

lemma set_scan_range_items_known_axes:
  "set_scan_range_items c keys s m = (r, s', ev) \<Longrightarrow>
     (map_of (scan_ranges s') k = None) = (map_of (scan_ranges s) k = None)"
proof (induction m arbitrary: s)
  case Nil
  then show ?case by (auto simp: Let_def)
next
  case (Cons p m)
  obtain ax rng where p: "p = (ax, rng)" by (cases p)
  show ?case
  proof (cases "map_of (scan_ranges s) ax = None")
    case True
    with Cons.prems p show ?thesis by (auto simp: Let_def)
  next
    case known: False
    show ?thesis
    proof (cases "map_of c ax")
      case None
      with Cons.prems p known show ?thesis by auto
    next
      case (Some a)
      with Cons.prems p known
      have "set_scan_range_items c keys
              (s\<lparr>scan_ranges := AList.update ax (new_range a rng) (scan_ranges s)\<rparr>) m =
            (r, s', ev)"
        by simp
      from Cons.IH [OF this] known show ?thesis by (auto simp: update_conv')
    qed
  qed
qed

text \<open>
  Entries for known axes at the front of the argument are applied one after the other;
  the loop then goes on from the state they leave.
\<close>

lemma set_scan_range_items_append:
  assumes "\<forall>k \<in> set (map fst pre). map_of (scan_ranges s) k \<noteq> None \<and> map_of c k \<noteq> None"
  shows "set_scan_range_items c keys s (pre @ rest) =
           set_scan_range_items c keys (fst (snd (set_scan_range_items c keys' s pre))) rest"
  using assms
proof (induction pre arbitrary: s)
  case Nil
  then show ?case by (simp add: Let_def)
next
  case (Cons p pre)
  obtain ax rng where p: "p = (ax, rng)" by (cases p)
  from Cons.prems p have known: "map_of (scan_ranges s) ax \<noteq> None"
    by simp
  from Cons.prems p obtain a where a: "map_of c ax = Some a"
    by auto
  let ?s = "s\<lparr>scan_ranges := AList.update ax (new_range a rng) (scan_ranges s)\<rparr>"
  have "\<forall>k \<in> set (map fst pre). map_of (scan_ranges ?s) k \<noteq> None \<and> map_of c k \<noteq> None"
    using Cons.prems by (auto simp: update_conv')
  from Cons.IH [OF this] show ?case using p a known by auto
qed

text \<open>
  Claim C1, as stated, fails: the check for an unknown axis sits inside the loop that
  stores the ranges, so the entries in front of the unknown axis are stored before the
  call is given up. Here \<open>x\<close> is changed from \<open>(0, 1)\<close> to \<open>(1/2, 1/2)\<close> by a call that
  reports the unknown axis \<open>bogus\<close>.
\<close>

theorem set_scan_range_partial_counterexample:
  "module_state demo_state = Idle
   \<and> map_of (scan_ranges demo_state) ''bogus'' = None
   \<and> set_scan_range demo_scanner demo_state [(''x'', (1 / 2, 1 / 4)), (''bogus'', (0, 1))] =
       (Returned [(''x'', (1 / 2, 1 / 2)), (''y'', (0, 1))],
        demo_state\<lparr>scan_ranges := [(''x'', (1 / 2, 1 / 2)), (''y'', (0, 1))]\<rparr>,
        [Log_error (Unknown_axis ''bogus''),
         SigScanSettingsChanged (Range_changed [(''x'', (1 / 2, 1 / 2)), (''y'', (0, 1))])])
   \<and> scan_ranges (demo_state\<lparr>scan_ranges := [(''x'', (1 / 2, 1 / 2)), (''y'', (0, 1))]\<rparr>)
       \<noteq> scan_ranges demo_state"
  by (simp add: demo_state_def demo_scanner_def demo_axis_x_def demo_axis_y_def
        set_scan_range_def new_range_def Let_def)

text \<open>
  Claim C1, amended. While idle, \<^verbatim>\<open>set_scan_range\<close> stops at the first unknown axis of its
  argument: the entries in front of it (known axes) have been stored as a call with just
  those entries stores them, the unknown entry and the entries behind it are not looked
  at, the complete stored ranges as they are now are returned and emitted, and an error
  naming the unknown axis is logged. When the unknown axis comes first, the state is
  unchanged.
\<close>

theorem set_scan_range_stops_at_unknown_axis:
  assumes "module_state s = Idle"
    and "map_of (scan_ranges s) ax = None"
    and "\<forall>k \<in> set (map fst before).
           map_of (scan_ranges s) k \<noteq> None \<and> map_of (axes hw) k \<noteq> None"
  shows "set_scan_range hw s (before @ (ax, r) # after) =
           (let s1 = fst (snd (set_scan_range hw s before))
            in (Returned (scan_ranges s1), s1,
                [Log_error (Unknown_axis ax),
                 SigScanSettingsChanged (Range_changed (scan_ranges s1))]))
         \<and> set_scan_range hw s ((ax, r) # after) =
             (Returned (scan_ranges s), s,
              [Log_error (Unknown_axis ax),
               SigScanSettingsChanged (Range_changed (scan_ranges s))])"
proof -
  let ?keys = "map fst (before @ (ax, r) # after)"
  let ?s1 = "fst (snd (set_scan_range_items (axes hw) (map fst before) s before))"
  obtain r1 ev1 where
    run: "set_scan_range_items (axes hw) (map fst before) s before = (r1, ?s1, ev1)"
    by (metis prod.collapse)
  have unknown: "map_of (scan_ranges ?s1) ax = None"
    using set_scan_range_items_known_axes [OF run] assms(2) by simp
  have "set_scan_range_items (axes hw) ?keys s (before @ (ax, r) # after) =
          set_scan_range_items (axes hw) ?keys ?s1 ((ax, r) # after)"
    using assms(3) by (rule set_scan_range_items_append)
  with unknown assms(1,2) show ?thesis
    by (simp add: set_scan_range_def Let_def)
qed

theorem set_scan_range_stops_at_unknown_axis_witness:
  "module_state demo_state = Idle
   \<and> map_of (scan_ranges demo_state) ''bogus'' = None
   \<and> map_of (scan_ranges demo_state) ''x'' \<noteq> None
   \<and> map_of (axes demo_scanner) ''x'' \<noteq> None
   \<and> set_scan_range demo_scanner demo_state
         ([(''x'', (1 / 2, 1 / 4))] @ (''bogus'', (0, 1)) # [(''y'', (0, 1 / 2))]) =
       (Returned [(''x'', (1 / 2, 1 / 2)), (''y'', (0, 1))],
        demo_state\<lparr>scan_ranges := [(''x'', (1 / 2, 1 / 2)), (''y'', (0, 1))]\<rparr>,
        [Log_error (Unknown_axis ''bogus''),
         SigScanSettingsChanged (Range_changed [(''x'', (1 / 2, 1 / 2)), (''y'', (0, 1))])])
   \<and> set_scan_range demo_scanner demo_state ((''bogus'', (0, 1)) # [(''y'', (0, 1 / 2))]) =
       (Returned [(''x'', (0, 1)), (''y'', (0, 1))], demo_state,
        [Log_error (Unknown_axis ''bogus''),
         SigScanSettingsChanged (Range_changed [(''x'', (0, 1)), (''y'', (0, 1))])])"
  using set_scan_range_stops_at_unknown_axis
          [of demo_state "''bogus''" "[(''x'', (1 / 2, 1 / 4))]" demo_scanner "(0, 1)"
              "[(''y'', (0, 1 / 2))]"]
  by (simp add: demo_state_def demo_scanner_def demo_axis_x_def demo_axis_y_def
        set_scan_range_def new_range_def Let_def)

lemma set_scan_range_items_untouched:
  "k \<notin> set (map fst m) \<Longrightarrow>
     map_of (scan_ranges (fst (snd (set_scan_range_items c keys s m)))) k =
     map_of (scan_ranges s) k"
  by (induction m arbitrary: s) (auto simp: Let_def update_conv' split: option.splits)

lemma set_scan_range_items_stored:
  assumes "\<forall>k \<in> set (map fst m). map_of (scan_ranges s) k \<noteq> None \<and> map_of c k \<noteq> None"
    and "distinct (map fst m)"
    and "(ax, rng) \<in> set m"
    and "map_of c ax = Some a"
  shows "map_of (scan_ranges (fst (snd (set_scan_range_items c keys s m)))) ax =
           Some (new_range a rng)"
  using assms
proof (induction m arbitrary: s)
  case Nil
  then show ?case by simp
next
  case (Cons p m)
  obtain ax' rng' where p: "p = (ax', rng')" by (cases p)
  from Cons.prems(1) p have known: "map_of (scan_ranges s) ax' \<noteq> None"
    by simp
  from Cons.prems(1) p obtain a' where a': "map_of c ax' = Some a'"
    by auto
  let ?s = "s\<lparr>scan_ranges := AList.update ax' (new_range a' rng') (scan_ranges s)\<rparr>"
  have step: "set_scan_range_items c keys s (p # m) = set_scan_range_items c keys ?s m"
    using p known a' by auto
  have known': "\<forall>k \<in> set (map fst m). map_of (scan_ranges ?s) k \<noteq> None \<and> map_of c k \<noteq> None"
    using Cons.prems(1) by (auto simp: update_conv')
  show ?case
  proof (cases "(ax, rng) = p")
    case True
    with p Cons.prems(2) have "ax \<notin> set (map fst m)" by auto
    from set_scan_range_items_untouched [OF this, of c keys ?s] True p a' Cons.prems(4)
    show ?thesis unfolding step by (simp add: update_conv')
  next
    case False
    with Cons.prems(3) have "(ax, rng) \<in> set m" by simp
    from Cons.IH [OF known' _ this Cons.prems(4)] Cons.prems(2)
    show ?thesis unfolding step by simp
  qed
qed

lemma set_scan_range_items_all_known:
  assumes "\<forall>k \<in> set (map fst m). map_of (scan_ranges s) k \<noteq> None \<and> map_of c k \<noteq> None"
    and "set_scan_range_items c keys s m = (r, s', ev)"
  shows "r = Returned (filter (\<lambda>(ax, r). ax \<in> set keys) (scan_ranges s'))
       \<and> ev = [SigScanSettingsChanged
                 (Range_changed (filter (\<lambda>(ax, r). ax \<in> set keys) (scan_ranges s')))]"
proof -
  from set_scan_range_items_append [OF assms(1), of keys "[]" keys] assms(2)
  show ?thesis by (simp add: Let_def)
qed

lemma new_range_within:
  assumes "min_value c \<le> max_value c"
  shows "min_value c \<le> fst (new_range c rng) \<and> fst (new_range c rng) \<le> snd (new_range c rng)
       \<and> snd (new_range c rng) \<le> max_value c"
  using assms by (auto simp: new_range_def Let_def)

text \<open>
  Claim C8. While idle, for an argument whose axes are all known (stored and described
  by the scanner's constraints), \<^verbatim>\<open>set_scan_range\<close> raises nothing, changes only the stored
  ranges, and stores for each axis of the argument the pair of its two bounds, each
  limited to \<open>[min_value, max_value]\<close> on its own, with the upper bound replaced by the
  lower one when it has come out smaller. For a well-formed value range the stored pair
  lies inside it, in order. Axes that are not in the argument keep their range. The
  ranges of the axes of the argument are returned and emitted. With the value range
  \<open>(0, 1)\<close>, the request \<open>(-1, 2)\<close> for \<open>x\<close> stores \<open>(0, 1)\<close>.
\<close>

theorem set_scan_range_clips:
  assumes "module_state s = Idle"
    and "distinct (map fst m)"
    and "\<forall>k \<in> set (map fst m). map_of (scan_ranges s) k \<noteq> None \<and> map_of (axes hw) k \<noteq> None"
    and "set_scan_range hw s m = (r, s', ev)"
  shows "r = Returned (filter (\<lambda>(ax, r). ax \<in> set (map fst m)) (scan_ranges s'))
       \<and> ev = [SigScanSettingsChanged
                 (Range_changed (filter (\<lambda>(ax, r). ax \<in> set (map fst m)) (scan_ranges s')))]
       \<and> s' = s\<lparr>scan_ranges := scan_ranges s'\<rparr>
       \<and> (\<forall>ax lo hi c. (ax, (lo, hi)) \<in> set m \<and> map_of (axes hw) ax = Some c \<longrightarrow>
             map_of (scan_ranges s') ax =
               Some (min (max_value c) (max (min_value c) lo),
                     if min (max_value c) (max (min_value c) lo)
                          > min (max_value c) (max (min_value c) hi)
                     then min (max_value c) (max (min_value c) lo)
                     else min (max_value c) (max (min_value c) hi)))
       \<and> (\<forall>ax lo hi c l h. (ax, (lo, hi)) \<in> set m \<and> map_of (axes hw) ax = Some c
              \<and> min_value c \<le> max_value c \<and> map_of (scan_ranges s') ax = Some (l, h) \<longrightarrow>
              min_value c \<le> l \<and> l \<le> h \<and> h \<le> max_value c)
       \<and> (\<forall>k. k \<notin> set (map fst m) \<longrightarrow> map_of (scan_ranges s') k = map_of (scan_ranges s) k)
       \<and> (\<forall>c. m = [(''x'', (- 1, 2))] \<and> map_of (axes hw) ''x'' = Some c
               \<and> min_value c = 0 \<and> max_value c = 1 \<longrightarrow>
             map_of (scan_ranges s') ''x'' = Some (0, 1))"
proof -
  let ?c = "axes hw" and ?keys = "map fst m"
  from assms(1,4) have run: "set_scan_range_items ?c ?keys s m = (r, s', ev)"
    by (simp add: set_scan_range_def)
  then have s': "s' = fst (snd (set_scan_range_items ?c ?keys s m))" by simp
  have stored: "map_of (scan_ranges s') ax = Some (new_range c rng)"
    if "(ax, rng) \<in> set m" "map_of ?c ax = Some c" for ax rng c
    unfolding s' using assms(3,2) that by (rule set_scan_range_items_stored)
  have 1: "r = Returned (filter (\<lambda>(ax, r). ax \<in> set ?keys) (scan_ranges s'))
       \<and> ev = [SigScanSettingsChanged
                 (Range_changed (filter (\<lambda>(ax, r). ax \<in> set ?keys) (scan_ranges s')))]"
    using assms(3) run by (rule set_scan_range_items_all_known)
  have 2: "s' = s\<lparr>scan_ranges := scan_ranges s'\<rparr>"
    using run by (rule set_scan_range_items_only_ranges)
  have 3: "map_of (scan_ranges s') ax =
               Some (min (max_value c) (max (min_value c) lo),
                     if min (max_value c) (max (min_value c) lo)
                          > min (max_value c) (max (min_value c) hi)
                     then min (max_value c) (max (min_value c) lo)
                     else min (max_value c) (max (min_value c) hi))"
    if "(ax, (lo, hi)) \<in> set m" "map_of ?c ax = Some c" for ax lo hi c
    using stored [OF that] by (simp add: new_range_def Let_def)
  have 4: "min_value c \<le> l \<and> l \<le> h \<and> h \<le> max_value c"
    if "(ax, (lo, hi)) \<in> set m" "map_of ?c ax = Some c" "min_value c \<le> max_value c"
       "map_of (scan_ranges s') ax = Some (l, h)" for ax lo hi c l h
    using stored [OF that(1,2)] new_range_within [OF that(3), of "(lo, hi)"] that(4)
    by (metis fst_conv snd_conv option.inject)
  have 5: "map_of (scan_ranges s') k = map_of (scan_ranges s) k" if "k \<notin> set ?keys" for k
    unfolding s' using that by (rule set_scan_range_items_untouched)
  have 6: "map_of (scan_ranges s') ''x'' = Some (0, 1)"
    if "m = [(''x'', (- 1, 2))]" "map_of ?c ''x'' = Some c" "min_value c = 0" "max_value c = 1"
    for c
    using 3 [of "''x''" "- 1" 2 c] that by simp
  from 1 2 3 4 5 6 show ?thesis by blast
qed

theorem set_scan_range_clips_witness:
  "module_state demo_state = Idle
   \<and> distinct (map fst [(''x'', (- 1, 2)), (''y'', (3 / 4, 1 / 4)) :: string \<times> real \<times> real])
   \<and> map_of (scan_ranges demo_state) ''x'' \<noteq> None \<and> map_of (axes demo_scanner) ''x'' \<noteq> None
   \<and> map_of (scan_ranges demo_state) ''y'' \<noteq> None \<and> map_of (axes demo_scanner) ''y'' \<noteq> None
   \<and> set_scan_range demo_scanner demo_state [(''x'', (- 1, 2)), (''y'', (3 / 4, 1 / 4))] =
       (Returned [(''x'', (0, 1)), (''y'', (3 / 4, 3 / 4))],
        demo_state\<lparr>scan_ranges := [(''x'', (0, 1)), (''y'', (3 / 4, 3 / 4))]\<rparr>,
        [SigScanSettingsChanged (Range_changed [(''x'', (0, 1)), (''y'', (3 / 4, 3 / 4))])])
   \<and> map_of (scan_ranges
               (demo_state\<lparr>scan_ranges := [(''x'', (0, 1)), (''y'', (3 / 4, 3 / 4))]\<rparr>)) ''y'' =
       Some (3 / 4, 3 / 4)"
proof -
  let ?m = "[(''x'', (- 1, 2)), (''y'', (3 / 4, 1 / 4))] :: (string \<times> real \<times> real) list"
  let ?s' = "demo_state\<lparr>scan_ranges := [(''x'', (0, 1)), (''y'', (3 / 4, 3 / 4))]\<rparr>"
  have idle: "module_state demo_state = Idle"
    by (simp add: demo_state_def)
  have keys: "distinct (map fst ?m)"
    by simp
  have known: "\<forall>k \<in> set (map fst ?m).
                 map_of (scan_ranges demo_state) k \<noteq> None \<and> map_of (axes demo_scanner) k \<noteq> None"
    by (simp add: demo_state_def demo_scanner_def)
  have run: "set_scan_range demo_scanner demo_state ?m =
               (Returned [(''x'', (0, 1)), (''y'', (3 / 4, 3 / 4))], ?s',
                [SigScanSettingsChanged
                   (Range_changed [(''x'', (0, 1)), (''y'', (3 / 4, 3 / 4))])])"
    by (simp add: demo_state_def demo_scanner_def demo_axis_x_def demo_axis_y_def
          set_scan_range_def new_range_def Let_def)
  note clips = set_scan_range_clips [OF idle keys known run]
  have y: "(''y'', (3 / 4, 1 / 4)) \<in> set ?m \<and> map_of (axes demo_scanner) ''y'' = Some demo_axis_y"
    by (simp add: demo_scanner_def)
  from clips have
    "\<forall>ax lo hi c. (ax, (lo, hi)) \<in> set ?m \<and> map_of (axes demo_scanner) ax = Some c \<longrightarrow>
       map_of (scan_ranges ?s') ax =
         Some (min (max_value c) (max (min_value c) lo),
               if min (max_value c) (max (min_value c) lo)
                    > min (max_value c) (max (min_value c) hi)
               then min (max_value c) (max (min_value c) lo)
               else min (max_value c) (max (min_value c) hi))"
    by (elim conjE)
  then have "(''y'', (3 / 4, 1 / 4)) \<in> set ?m \<and> map_of (axes demo_scanner) ''y'' = Some demo_axis_y \<longrightarrow>
       map_of (scan_ranges ?s') ''y'' =
         Some (min (max_value demo_axis_y) (max (min_value demo_axis_y) (3 / 4)),
               if min (max_value demo_axis_y) (max (min_value demo_axis_y) (3 / 4))
                    > min (max_value demo_axis_y) (max (min_value demo_axis_y) (1 / 4))
               then min (max_value demo_axis_y) (max (min_value demo_axis_y) (3 / 4))
               else min (max_value demo_axis_y) (max (min_value demo_axis_y) (1 / 4)))"
    by (elim allE)
  with y have stored: "map_of (scan_ranges ?s') ''y'' = Some (3 / 4, 3 / 4)"
    by (simp add: demo_axis_y_def)
  have dom: "map_of (scan_ranges demo_state) ''x'' \<noteq> None \<and> map_of (axes demo_scanner) ''x'' \<noteq> None
       \<and> map_of (scan_ranges demo_state) ''y'' \<noteq> None \<and> map_of (axes demo_scanner) ''y'' \<noteq> None"
    by (simp add: demo_state_def demo_scanner_def)
  from idle keys dom run stored show ?thesis
    by (intro conjI) (elim conjE, assumption)+
qed

section \<open>The history ring\<close>

lemma evict_oldest_drop:
  "1 \<le> m \<Longrightarrow> evict_oldest h m = (None, drop (length h + 1 - nat m) h)"
proof (induction h)
  case Nil
  then show ?case by simp
next
  case (Cons x xs)
  show ?case
  proof (cases "int (length (x # xs)) \<ge> m")
    case True
    with Cons.prems have "length xs + 2 - nat m = Suc (length xs + 1 - nat m)"
      by (simp, (linarith)?)
    with True Cons show ?thesis by simp
  next
    case False
    then have "length xs + 2 - nat m = 0" by (simp, (linarith)?)
    with False show ?thesis by simp
  qed
qed

text \<open>A ring of capacity 0 or less: \<^verbatim>\<open>pop(0)\<close> ends up on the empty list.\<close>

lemma evict_oldest_raises:
  "m \<le> 0 \<Longrightarrow> evict_oldest h m = (Some IndexError, [])"
  by (induction h) auto

lemma append_history_ok:
  assumes "1 \<le> max_history_length cfg"
  shows "append_history cfg s data =
           (None, s\<lparr>scan_history :=
                      drop (length (scan_history s) + 1 - nat (max_history_length cfg))
                        (scan_history s) @ [data],
                    curr_history_index :=
                      int (length (drop (length (scan_history s) + 1
                                           - nat (max_history_length cfg))
                                     (scan_history s) @ [data])) - 1\<rparr>)"
  using assms by (simp add: append_history_def evict_oldest_drop)

lemma append_history_None:
  assumes "append_history cfg s data = (None, s')"
  shows "1 \<le> max_history_length cfg"
proof (rule ccontr)
  assume "\<not> 1 \<le> max_history_length cfg"
  then have "max_history_length cfg \<le> 0" by simp
  from evict_oldest_raises [OF this, of "scan_history s"] assms show False
    by (simp add: append_history_def)
qed

lemma length_after_append:
  "1 \<le> m \<Longrightarrow> int (length (drop (length h + 1 - nat m) h @ [x])) \<le> m"
  by simp

lemma spec_append_resultI:
  assumes "1 \<le> max_history_length cfg"
    and "scan_history s' =
          drop (length (scan_history s) + 1 - nat (max_history_length cfg)) (scan_history s)
            @ [data]"
    and "curr_history_index s' = int (length (scan_history s')) - 1"
  shows "spec_append_result cfg data s s'"
  using assms length_after_append [OF assms(1), of "scan_history s" data]
  unfolding spec_append_result_def by simp

text \<open>What \<^verbatim>\<open>toggle_scan(False)\<close> does while a scan runs, for a ring of capacity 1 or more.\<close>

lemma toggle_scan_stop_locked:
  assumes "module_state s = Locked" and "1 \<le> max_history_length cfg"
  shows "toggle_scan cfg hw s False scan_axes =
           (let data = get_scan_data hw;
                h = drop (length (scan_history s) + 1 - nat (max_history_length cfg))
                      (scan_history s) @ [data];
                s1 = s\<lparr>scan_history := h, curr_history_index := int (length h) - 1\<rparr>
            in if stop_scan hw < 0 then
                 (Returned (- 1), s1,
                  [SigScanDataChanged data, Log_error Unable_to_stop_waiting,
                   SigScanStateChanged True (current_scan s)])
               else
                 (Returned 0, s1\<lparr>timer := position_timer cfg, module_state := Idle\<rparr>,
                  [SigScanDataChanged data, SigStopTimer,
                   SigScanStateChanged False (current_scan s), SigStartTimer]))"
  using assms
  by (simp add: toggle_scan_def toggle_scan_stop_def append_history_ok Let_def)

lemma scan_loop_finished:
  assumes "module_state s = Locked" and "is_finished (get_scan_data hw)"
    and "1 \<le> max_history_length cfg"
  shows "scan_loop cfg hw s =
           (let data = get_scan_data hw;
                h = drop (length (scan_history s) + 1 - nat (max_history_length cfg))
                      (scan_history s) @ [data]
            in (Returned (),
                s\<lparr>timer := position_timer cfg, module_state := Idle,
                  scan_history := h, curr_history_index := int (length h) - 1\<rparr>,
                (if stop_scan hw < 0 then [Log_error Unable_to_stop] else [])
                  @ [SigStopTimer, SigScanStateChanged False (current_scan s), SigStartTimer,
                     SigScanDataChanged data, SigStartTimer]))"
  using assms by (simp add: scan_loop_def append_history_ok Let_def)

lemma toggle_scan_stop_returned:
  assumes "toggle_scan_stop cfg hw s = (Returned r, s', ev)"
  shows "1 \<le> max_history_length cfg"
proof -
  obtain e s1 where a: "append_history cfg s (get_scan_data hw) = (e, s1)"
    by (cases "append_history cfg s (get_scan_data hw)")
  with assms have "e = None"
    by (cases e) (simp_all add: toggle_scan_stop_def Let_def)
  with a show ?thesis by (auto dest: append_history_None)
qed

lemma scan_loop_returned:
  assumes "module_state s = Locked" and "is_finished (get_scan_data hw)"
    and "scan_loop cfg hw s = (Returned r, s', ev)"
  shows "1 \<le> max_history_length cfg"
proof -
  let ?s1 = "s\<lparr>timer := position_timer cfg, module_state := Idle\<rparr>"
  obtain e s2 where a: "append_history cfg ?s1 (get_scan_data hw) = (e, s2)"
    by (cases "append_history cfg ?s1 (get_scan_data hw)")
  with assms have "e = None"
    by (cases e) (simp_all add: scan_loop_def Let_def)
  with a show ?thesis by (auto dest: append_history_None)
qed

text \<open>
  Claim C7. Both places that append a frame to the history (\<^verbatim>\<open>toggle_scan(False)\<close> while
  a scan runs, and \<^verbatim>\<open>_scan_loop\<close> on a finished scan) return normally when the configured
  capacity is at least 1. Whenever they return, the history is within the capacity, it
  consists of the old history without as many of its oldest entries as were needed to make
  room, followed by the new frame, and the cursor is the index of that frame.
\<close>

theorem history_stays_within_capacity:
  "(module_state s = Locked \<and> 1 \<le> max_history_length cfg \<longrightarrow>
      (\<exists>r s' ev. toggle_scan cfg hw s False scan_axes = (Returned r, s', ev)))
   \<and> (module_state s = Locked \<and> is_finished (get_scan_data hw)
        \<and> 1 \<le> max_history_length cfg \<longrightarrow>
      (\<exists>s' ev. scan_loop cfg hw s = (Returned (), s', ev)))
   \<and> (module_state s = Locked \<and> toggle_scan cfg hw s False scan_axes = (Returned r, s', ev) \<longrightarrow>
      spec_append_result cfg (get_scan_data hw) s s')
   \<and> (module_state s = Locked \<and> is_finished (get_scan_data hw)
        \<and> scan_loop cfg hw s = (Returned u, s'', ev') \<longrightarrow>
      spec_append_result cfg (get_scan_data hw) s s'')"
proof (intro conjI impI; (elim conjE)?)
  assume "module_state s = Locked" "1 \<le> max_history_length cfg"
  then show "\<exists>r s' ev. toggle_scan cfg hw s False scan_axes = (Returned r, s', ev)"
    by (simp add: toggle_scan_stop_locked Let_def)
next
  assume "module_state s = Locked" "is_finished (get_scan_data hw)"
    "1 \<le> max_history_length cfg"
  then show "\<exists>s' ev. scan_loop cfg hw s = (Returned (), s', ev)"
    by (simp add: scan_loop_finished Let_def)
next
  assume locked: "module_state s = Locked"
    and run: "toggle_scan cfg hw s False scan_axes = (Returned r, s', ev)"
  then have "toggle_scan_stop cfg hw s = (Returned r, s', ev)"
    by (simp add: toggle_scan_def)
  then have pos: "1 \<le> max_history_length cfg"
    by (rule toggle_scan_stop_returned)
  from run have "s' = s\<lparr>scan_history :=
                          drop (length (scan_history s) + 1 - nat (max_history_length cfg))
                            (scan_history s) @ [get_scan_data hw],
                        curr_history_index :=
                          int (length (drop (length (scan_history s) + 1
                                               - nat (max_history_length cfg))
                                         (scan_history s) @ [get_scan_data hw])) - 1\<rparr>
               \<or> s' = s\<lparr>scan_history :=
                          drop (length (scan_history s) + 1 - nat (max_history_length cfg))
                            (scan_history s) @ [get_scan_data hw],
                        curr_history_index :=
                          int (length (drop (length (scan_history s) + 1
                                               - nat (max_history_length cfg))
                                         (scan_history s) @ [get_scan_data hw])) - 1,
                        timer := position_timer cfg, module_state := Idle\<rparr>"
    unfolding toggle_scan_stop_locked [OF locked pos] by (simp add: Let_def split: if_splits)
  then show "spec_append_result cfg (get_scan_data hw) s s'"
    by (elim disjE) (rule spec_append_resultI [OF pos], simp, simp)+
next
  assume locked: "module_state s = Locked" and fin: "is_finished (get_scan_data hw)"
    and run: "scan_loop cfg hw s = (Returned u, s'', ev')"
  then have pos: "1 \<le> max_history_length cfg"
    by (rule scan_loop_returned)
  from run have "s'' = s\<lparr>timer := position_timer cfg, module_state := Idle,
                         scan_history :=
                           drop (length (scan_history s) + 1 - nat (max_history_length cfg))
                             (scan_history s) @ [get_scan_data hw],
                         curr_history_index :=
                           int (length (drop (length (scan_history s) + 1
                                                - nat (max_history_length cfg))
                                          (scan_history s) @ [get_scan_data hw])) - 1\<rparr>"
    unfolding scan_loop_finished [OF locked fin pos] by (simp add: Let_def)
  then show "spec_append_result cfg (get_scan_data hw) s s''"
    by - (rule spec_append_resultI [OF pos], simp, simp)
qed

theorem history_stays_within_capacity_witness:
  "module_state demo_running_full = Locked
   \<and> max_history_length demo_small_config = 2
   \<and> length (scan_history demo_running_full) = 2
   \<and> toggle_scan demo_small_config demo_scanner demo_running_full False None =
       (Returned 0,
        demo_running_full
          \<lparr>scan_history := [demo_frame 9, demo_frame 100], curr_history_index := 1,
           timer := \<lparr>timeout_handler = Update_scanner_position_loop, interval = 1000,
                     single_shot = True\<rparr>,
           module_state := Idle\<rparr>,
        [SigScanDataChanged (demo_frame 100), SigStopTimer,
         SigScanStateChanged False (Some [''x'', ''y'']), SigStartTimer])
   \<and> spec_append_result demo_small_config (get_scan_data demo_scanner) demo_running_full
       (demo_running_full
          \<lparr>scan_history := [demo_frame 9, demo_frame 100], curr_history_index := 1,
           timer := \<lparr>timeout_handler = Update_scanner_position_loop, interval = 1000,
                     single_shot = True\<rparr>,
           module_state := Idle\<rparr>)
   \<and> is_finished (get_scan_data demo_finished_scanner)
   \<and> scan_loop demo_small_config demo_finished_scanner demo_running_full =
       (Returned (),
        demo_running_full
          \<lparr>timer := \<lparr>timeout_handler = Update_scanner_position_loop, interval = 1000,
                     single_shot = True\<rparr>,
           module_state := Idle,
           scan_history := [demo_frame 9, (demo_frame 100)\<lparr>is_finished := True\<rparr>],
           curr_history_index := 1\<rparr>,
        [SigStopTimer, SigScanStateChanged False (Some [''x'', ''y'']), SigStartTimer,
         SigScanDataChanged ((demo_frame 100)\<lparr>is_finished := True\<rparr>), SigStartTimer])
   \<and> spec_append_result demo_small_config (get_scan_data demo_finished_scanner)
       demo_running_full
       (demo_running_full
          \<lparr>timer := \<lparr>timeout_handler = Update_scanner_position_loop, interval = 1000,
                     single_shot = True\<rparr>,
           module_state := Idle,
           scan_history := [demo_frame 9, (demo_frame 100)\<lparr>is_finished := True\<rparr>],
           curr_history_index := 1\<rparr>)"
proof -
  let ?idle_timer = "\<lparr>timeout_handler = Update_scanner_position_loop, interval = 1000,
                      single_shot = True\<rparr>"
  let ?s1 = "demo_running_full
               \<lparr>scan_history := [demo_frame 9, demo_frame 100], curr_history_index := 1,
                timer := ?idle_timer, module_state := Idle\<rparr>"
  let ?s2 = "demo_running_full
               \<lparr>timer := ?idle_timer, module_state := Idle,
                scan_history := [demo_frame 9, (demo_frame 100)\<lparr>is_finished := True\<rparr>],
                curr_history_index := 1\<rparr>"
  have locked: "module_state demo_running_full = Locked"
    by (simp add: demo_running_full_def demo_running_def demo_state_def)
  have cap: "max_history_length demo_small_config = 2"
    by (simp add: demo_small_config_def demo_config_def)
  have len: "length (scan_history demo_running_full) = 2"
    by (simp add: demo_running_full_def)
  have timer: "position_timer demo_small_config = ?idle_timer"
    by (simp add: position_timer_def py_round_def demo_small_config_def demo_config_def)
  have stop: "toggle_scan demo_small_config demo_scanner demo_running_full False None =
                (Returned 0, ?s1,
                 [SigScanDataChanged (demo_frame 100), SigStopTimer,
                  SigScanStateChanged False (Some [''x'', ''y'']), SigStartTimer])"
    by (simp add: toggle_scan_def toggle_scan_stop_def append_history_def timer locked cap
          Let_def)
       (simp add: demo_running_full_def demo_running_def demo_state_def demo_scanner_def
          timer Let_def)
  have fin: "is_finished (get_scan_data demo_finished_scanner)"
    by (simp add: demo_finished_scanner_def)
  have poll: "scan_loop demo_small_config demo_finished_scanner demo_running_full =
                (Returned (), ?s2,
                 [SigStopTimer, SigScanStateChanged False (Some [''x'', ''y'']), SigStartTimer,
                  SigScanDataChanged ((demo_frame 100)\<lparr>is_finished := True\<rparr>), SigStartTimer])"
    by (simp add: scan_loop_def append_history_def timer locked cap fin Let_def)
       (simp add: demo_running_full_def demo_running_def demo_state_def
          demo_finished_scanner_def demo_scanner_def timer Let_def)
  note on_stop = history_stays_within_capacity
                   [of demo_running_full demo_small_config demo_scanner None 0 ?s1,
                    THEN conjunct2, THEN conjunct2, THEN conjunct1, THEN mp,
                    OF conjI, OF locked stop]
  note on_poll = history_stays_within_capacity
                   [of demo_running_full demo_small_config demo_finished_scanner None _ _ _
                       "()" ?s2,
                    THEN conjunct2, THEN conjunct2, THEN conjunct2, THEN mp,
                    OF conjI, OF locked, OF conjI, OF fin poll]
  from locked cap len stop on_stop fin poll on_poll show ?thesis
    by (intro conjI)
qed

section \<open>Stopping a running scan\<close>

text \<open>
  Claim C5, as stated, fails for a history of capacity 0: the loop in front of the
  \<^verbatim>\<open>append\<close> pops until the list is empty and then once more, so \<^verbatim>\<open>toggle_scan(False)\<close> ends
  in an \<^verbatim>\<open>IndexError\<close>. The frame is not appended, \<^verbatim>\<open>stop_scan()\<close> is not reached, nothing is
  emitted or returned, and the history that was there is gone.
\<close>

theorem stop_with_empty_ring_counterexample:
  "module_state demo_running_full = Locked
   \<and> max_history_length demo_zero_config = 0
   \<and> scan_history demo_running_full = [demo_frame 7, demo_frame 9]
   \<and> toggle_scan demo_zero_config demo_scanner demo_running_full False None =
       (Raised IndexError, demo_running_full\<lparr>scan_history := []\<rparr>, [])"
  by (simp add: toggle_scan_def toggle_scan_stop_def append_history_def Let_def
        demo_zero_config_def demo_config_def demo_running_full_def demo_running_def
        demo_state_def)

text \<open>
  Claim C5, amended. \<^verbatim>\<open>toggle_scan(False)\<close> while a scan runs, the history having a capacity
  of at least 1: the frame read from the scanner is appended to the history whether
  finished or not, the cursor is set to it and the frame is emitted. If \<^verbatim>\<open>stop_scan()\<close> then
  returns a negative value, nothing else changes (the module stays locked, the timer
  keeps the scan handler and its interval), an error is logged,
  \<^verbatim>\<open>sigScanStateChanged(True, axes)\<close> is emitted and -1 is returned. Otherwise the timer is
  stopped, made a single-shot timer for \<^verbatim>\<open>_update_scanner_position_loop\<close> with the interval
  \<^verbatim>\<open>int(round(position_update_interval * 1000))\<close> milliseconds, the module is unlocked,
  \<^verbatim>\<open>sigScanStateChanged(False, axes)\<close> is emitted, the timer is started and 0 is returned.
\<close>

theorem stop_keeps_running_when_scanner_fails:
  assumes "module_state s = Locked" and "1 \<le> max_history_length cfg"
  shows "toggle_scan cfg hw s False scan_axes =
           (let data = get_scan_data hw;
                h = drop (length (scan_history s) + 1 - nat (max_history_length cfg))
                      (scan_history s) @ [data];
                s1 = s\<lparr>scan_history := h, curr_history_index := int (length h) - 1\<rparr>
            in if stop_scan hw < 0 then
                 (Returned (- 1), s1,
                  [SigScanDataChanged data, Log_error Unable_to_stop_waiting,
                   SigScanStateChanged True (current_scan s)])
               else
                 (Returned 0,
                  s1\<lparr>timer := \<lparr>timeout_handler = Update_scanner_position_loop,
                                interval = py_round (position_update_interval cfg * 1000),
                                single_shot = True\<rparr>,
                     module_state := Idle\<rparr>,
                  [SigScanDataChanged data, SigStopTimer,
                   SigScanStateChanged False (current_scan s), SigStartTimer]))
       \<and> (stop_scan hw < 0 \<longrightarrow>
            module_state (fst (snd (toggle_scan cfg hw s False scan_axes))) = Locked
            \<and> timer (fst (snd (toggle_scan cfg hw s False scan_axes))) = timer s)"
proof -
  have run: "toggle_scan cfg hw s False scan_axes =
           (let data = get_scan_data hw;
                h = drop (length (scan_history s) + 1 - nat (max_history_length cfg))
                      (scan_history s) @ [data];
                s1 = s\<lparr>scan_history := h, curr_history_index := int (length h) - 1\<rparr>
            in if stop_scan hw < 0 then
                 (Returned (- 1), s1,
                  [SigScanDataChanged data, Log_error Unable_to_stop_waiting,
                   SigScanStateChanged True (current_scan s)])
               else
                 (Returned 0, s1\<lparr>timer := position_timer cfg, module_state := Idle\<rparr>,
                  [SigScanDataChanged data, SigStopTimer,
                   SigScanStateChanged False (current_scan s), SigStartTimer]))"
    using assms by (rule toggle_scan_stop_locked)
  have stays: "module_state (fst (snd (toggle_scan cfg hw s False scan_axes))) = Locked
               \<and> timer (fst (snd (toggle_scan cfg hw s False scan_axes))) = timer s"
    if "stop_scan hw < 0"
    unfolding run using that assms(1) by (simp add: Let_def)
  show ?thesis
  proof (rule conjI)
    show "toggle_scan cfg hw s False scan_axes =
           (let data = get_scan_data hw;
                h = drop (length (scan_history s) + 1 - nat (max_history_length cfg))
                      (scan_history s) @ [data];
                s1 = s\<lparr>scan_history := h, curr_history_index := int (length h) - 1\<rparr>
            in if stop_scan hw < 0 then
                 (Returned (- 1), s1,
                  [SigScanDataChanged data, Log_error Unable_to_stop_waiting,
                   SigScanStateChanged True (current_scan s)])
               else
                 (Returned 0,
                  s1\<lparr>timer := \<lparr>timeout_handler = Update_scanner_position_loop,
                                interval = py_round (position_update_interval cfg * 1000),
                                single_shot = True\<rparr>,
                     module_state := Idle\<rparr>,
                  [SigScanDataChanged data, SigStopTimer,
                   SigScanStateChanged False (current_scan s), SigStartTimer]))"
      unfolding run position_timer_def ..
  next
    show "stop_scan hw < 0 \<longrightarrow>
            module_state (fst (snd (toggle_scan cfg hw s False scan_axes))) = Locked
            \<and> timer (fst (snd (toggle_scan cfg hw s False scan_axes))) = timer s"
      using stays by (rule impI)
  qed
qed

theorem stop_keeps_running_when_scanner_fails_witness:
  "module_state demo_running_full = Locked
   \<and> 1 \<le> max_history_length demo_small_config
   \<and> stop_scan demo_stuck_scanner < 0
   \<and> toggle_scan demo_small_config demo_stuck_scanner demo_running_full False None =
       (Returned (- 1),
        demo_running_full
          \<lparr>scan_history := [demo_frame 9, demo_frame 100], curr_history_index := 1\<rparr>,
        [SigScanDataChanged (demo_frame 100), Log_error Unable_to_stop_waiting,
         SigScanStateChanged True (Some [''x'', ''y''])])
   \<and> module_state
       (demo_running_full
          \<lparr>scan_history := [demo_frame 9, demo_frame 100], curr_history_index := 1\<rparr>) = Locked
   \<and> timer
       (demo_running_full
          \<lparr>scan_history := [demo_frame 9, demo_frame 100], curr_history_index := 1\<rparr>) =
       \<lparr>timeout_handler = Scan_loop, interval = 500, single_shot = True\<rparr>
   \<and> 1 \<le> max_history_length demo_fast_config
   \<and> \<not> stop_scan demo_scanner < 0
   \<and> toggle_scan demo_fast_config demo_scanner demo_running_full False None =
       (Returned 0,
        demo_running_full
          \<lparr>scan_history := [demo_frame 9, demo_frame 100], curr_history_index := 1,
           timer := \<lparr>timeout_handler = Update_scanner_position_loop, interval = 2,
                     single_shot = True\<rparr>,
           module_state := Idle\<rparr>,
        [SigScanDataChanged (demo_frame 100), SigStopTimer,
         SigScanStateChanged False (Some [''x'', ''y'']), SigStartTimer])"
proof -
  have locked: "module_state demo_running_full = Locked"
    by (simp add: demo_running_full_def demo_running_def demo_state_def)
  have cap: "1 \<le> max_history_length demo_small_config"
    by (simp add: demo_small_config_def demo_config_def)
  have cap': "1 \<le> max_history_length demo_fast_config"
    by (simp add: demo_fast_config_def demo_small_config_def demo_config_def)
  have ms: "py_round (position_update_interval demo_fast_config * 1000) = 2"
    by (simp add: py_round_def demo_fast_config_def Let_def)
  have vals: "max_history_length demo_small_config = 2"
    "max_history_length demo_fast_config = 2"
    "scan_history demo_running_full = [demo_frame 7, demo_frame 9]"
    "current_scan demo_running_full = Some [''x'', ''y'']"
    "timer demo_running_full =
       \<lparr>timeout_handler = Scan_loop, interval = 500, single_shot = True\<rparr>"
    "get_scan_data demo_scanner = demo_frame 100" "stop_scan demo_scanner = 0"
    "get_scan_data demo_stuck_scanner = demo_frame 100" "stop_scan demo_stuck_scanner = - 1"
    by (simp_all add: demo_fast_config_def demo_small_config_def demo_config_def
          demo_running_full_def demo_running_def demo_state_def demo_scanner_def
          demo_stuck_scanner_def)
  show ?thesis
    using stop_keeps_running_when_scanner_fails
            [OF locked cap, of demo_stuck_scanner None, THEN conjunct1]
          stop_keeps_running_when_scanner_fails
            [OF locked cap', of demo_scanner None, THEN conjunct1]
    by (simp add: locked ms vals Let_def)
qed

section \<open>Going back in the history\<close>

text \<open>
  An index at or beyond the length of the history, or below minus the length, is refused:
  an error is logged and the state, cursor and settings included, is unchanged.
\<close>

lemma restore_from_history_out_of_range:
  assumes "module_state s = Idle"
    and "int (length (scan_history s)) \<le> index \<or> index < - int (length (scan_history s))"
  shows "restore_from_history hw s index =
           (Returned (), s, [Log_error (History_index_out_of_range index)])"
  using assms by (auto simp: restore_from_history_def py_getitem_def)

text \<open>
  Claim C3 and the code: the only guard is \<^verbatim>\<open>except IndexError\<close> around
  \<^verbatim>\<open>self._scan_history[index]\<close>, and Python reads a negative index from the end of the
  list. With two frames in the history, \<^verbatim>\<open>restore_from_history(-1)\<close> logs no error, takes
  the scan frequency (9 instead of 100) from the newest frame and sets the cursor to -1.
\<close>

theorem restore_from_history_negative_index:
  "module_state demo_with_history = Idle
   \<and> length (scan_history demo_with_history) = 2
   \<and> scan_frequency demo_with_history = 100
   \<and> curr_history_index demo_with_history = 1
   \<and> restore_from_history demo_scanner demo_with_history (- 1) =
       (Returned (),
        demo_with_history\<lparr>scan_frequency := 9, curr_history_index := - 1\<rparr>,
        [Printed (Settings_changed [(''x'', (0, 1)), (''y'', (0, 1))]
                    [(''x'', 50), (''y'', 50)] 9),
         SigScanSettingsChanged
           (Settings_changed [(''x'', (0, 1)), (''y'', (0, 1))] [(''x'', 50), (''y'', 50)] 9),
         SigScanDataChanged (demo_frame 9)])"
  by (simp add: demo_with_history_def demo_state_def demo_scanner_def demo_axis_x_def
        demo_axis_y_def demo_frame_def restore_from_history_def py_getitem_def Let_def)

section \<open>The update interval of a running scan\<close>

text \<open>Taking over the scanner's answer touches neither the lock nor the frequency.\<close>

lemma update_from_scanner_keeps:
  "update_from_scanner ns i axs s = (r, s', ev) \<Longrightarrow>
     module_state s' = module_state s \<and> current_scan s' = current_scan s
     \<and> scan_frequency s' = scan_frequency s"
proof (induction axs arbitrary: i s r s' ev)
  case Nil
  then show ?case by simp
next
  case (Cons ax rest)
  show ?case
  proof (cases "map_of (scan_ranges s) ax")
    case None
    with Cons.prems show ?thesis by simp
  next
    case (Some old)
    show ?thesis
    proof (cases "py_getitem (settings_range ns) (int i)")
      case (Inl e)
      with Cons.prems Some show ?thesis by simp
    next
      case (Inr new)
      define s1 where "s1 = (if fst old \<noteq> fst new \<or> snd old \<noteq> snd new
                              then s\<lparr>scan_ranges := AList.update ax new (scan_ranges s)\<rparr> else s)"
      have s1: "module_state s1 = module_state s \<and> current_scan s1 = current_scan s
                \<and> scan_frequency s1 = scan_frequency s"
        by (simp add: s1_def)
      show ?thesis
      proof (cases "map_of (scan_resolution s1) ax")
        case None
        with Cons.prems Some Inr s1 show ?thesis
          by (auto simp: s1_def split: if_splits)
      next
        case res: (Some old_res)
        show ?thesis
        proof (cases "py_getitem (settings_resolution ns) (int i)")
          case (Inl e)
          with Cons.prems Some Inr res s1 show ?thesis
            by (auto simp: s1_def split: if_splits)
        next
          case new_res: (Inr new_res)
          define s2 where "s2 = (if old_res \<noteq> new_res
                                  then s1\<lparr>scan_resolution :=
                                            AList.update ax new_res (scan_resolution s1)\<rparr>
                                  else s1)"
          have s2: "module_state s2 = module_state s \<and> current_scan s2 = current_scan s
                    \<and> scan_frequency s2 = scan_frequency s"
            using s1 by (simp add: s2_def)
          obtain r3 s3 ev3 where rec: "update_from_scanner ns (Suc i) rest s2 = (r3, s3, ev3)"
            by (cases "update_from_scanner ns (Suc i) rest s2")
          from Cons.prems Some Inr res new_res rec have "s' = s3"
            by (auto simp: s1_def s2_def split: if_splits)
          with Cons.IH [OF rec] s2 show ?thesis by simp
        qed
      qed
    qed
  qed
qed

lemma start_scanner_success:
  assumes "start_scanner cfg hw s axs ev0 = (Returned 0, s', ev)"
  shows "\<exists>lp. line_points s axs = Inr lp \<and> scan_frequency s \<noteq> 0
           \<and> s' = s\<lparr>scan_update_interval :=
                       max (min_scan_update_interval cfg)
                         (min (max_scan_update_interval cfg)
                            (real_of_int lp / scan_frequency s)),
                     timer := \<lparr>timeout_handler = Scan_loop,
                                interval = py_round
                                  (max (min_scan_update_interval cfg)
                                     (min (max_scan_update_interval cfg)
                                        (real_of_int lp / scan_frequency s)) * 1000),
                                single_shot = True\<rparr>\<rparr>"
  using assms
  by (auto simp: start_scanner_def Let_def split: sum.splits if_splits)

lemma toggle_scan_start_success:
  assumes "toggle_scan_start cfg hw s (Some axs) = (Returned 0, s', ev)"
  shows "\<exists>s3 ev3. module_state s3 = Locked \<and> current_scan s3 = Some axs
           \<and> 0 < length axs \<and> length axs < 3
           \<and> start_scanner cfg hw s3 axs ev3 = (Returned 0, s', ev)"
proof -
  let ?s1 = "s\<lparr>module_state := Locked, current_scan := Some axs\<rparr>"
  from assms have len: "0 < length axs \<and> length axs < 3"
    by (auto simp: toggle_scan_start_def split: if_splits)
  with assms obtain rngs where rngs: "lookup_all (scan_ranges ?s1) axs = Some rngs"
    by (cases "lookup_all (scan_ranges ?s1) axs") (auto simp: toggle_scan_start_def Let_def)
  with assms len obtain ress where ress: "lookup_all (scan_resolution ?s1) axs = Some ress"
    by (cases "lookup_all (scan_resolution ?s1) axs") (auto simp: toggle_scan_start_def Let_def)
  define ns where "ns = configure_scan hw \<lparr>settings_axes = axs, settings_range = rngs,
                      settings_resolution = ress, settings_frequency = scan_frequency ?s1\<rparr>"
  obtain r2 s2 ev2 where upd: "update_from_scanner ns 0 axs ?s1 = (r2, s2, ev2)"
    by (cases "update_from_scanner ns 0 axs ?s1")
  define s3 where "s3 = (if scan_frequency s2 \<noteq> settings_frequency ns
                          then s2\<lparr>scan_frequency := settings_frequency ns\<rparr> else s2)"
  define ev3 where "ev3 = (if scan_frequency s2 \<noteq> settings_frequency ns
                          then ev2 @ [SigScanSettingsChanged
                                        (Frequency_changed (settings_frequency ns))]
                          else ev2)"
  have eq: "toggle_scan_start cfg hw s (Some axs) =
              (if settings_axes ns \<noteq> axs then
                 (Returned (- 1), ?s1\<lparr>module_state := Idle\<rparr>,
                  [Log_error (Axes_mismatch (settings_axes ns) axs),
                   SigScanStateChanged False (current_scan ?s1)])
               else (case r2 of
                       Some e \<Rightarrow> (Raised e, s2, ev2)
                     | None \<Rightarrow> start_scanner cfg hw s3 axs ev3))"
    using len rngs ress upd [unfolded ns_def]
    by (auto simp: toggle_scan_start_def Let_def ns_def s3_def ev3_def split: option.splits)
  from assms have ax: "settings_axes ns = axs"
    unfolding eq by (simp split: if_splits)
  from assms have r2: "r2 = None"
    unfolding eq by (cases r2) (simp_all add: ax)
  from assms have "start_scanner cfg hw s3 axs ev3 = (Returned 0, s', ev)"
    unfolding eq by (simp add: ax r2)
  moreover from update_from_scanner_keeps [OF upd]
  have "module_state s3 = Locked \<and> current_scan s3 = Some axs"
    by (simp add: s3_def)
  ultimately show ?thesis using len by blast
qed

lemma line_points_spec:
  assumes "line_points s axs = Inr lp" and "0 < length axs" and "length axs < 3"
  shows "spec_line_length s axs = Some (real_of_int lp)"
proof (cases "length axs = 2")
  case True
  then have "axs ! 0 = hd axs" by (cases axs) auto
  with True assms(1) show ?thesis
    by (auto simp: line_points_def spec_line_length_def split: option.splits)
next
  case False
  with assms(2,3) have "length axs = 1" by arith
  with assms(1) show ?thesis
    by (auto simp: line_points_def spec_line_length_def)
qed

lemma clamp_agrees:
  "lo \<le> hi \<Longrightarrow> max lo (min hi x) = spec_clamp x lo hi"
  by (auto simp: spec_clamp_def)

text \<open>
  Claim C4. A start that succeeds (\<^verbatim>\<open>toggle_scan(True, axes)\<close> from idle returning 0)
  leaves the module locked on these axes, with a scan frequency other than 0, and with
  the update interval \<open>max(min_scan_update_interval, min(max_scan_update_interval,
  lineLength / frequency))\<close>: the clamp of the specification whenever the two bounds are in
  order. \<open>lineLength\<close> is the stored resolution of the first axis for two axes and 1 for
  one axis, and resolution and frequency are the stored ones after the scanner's answer
  to \<^verbatim>\<open>configure_scan\<close> has been taken over. The timer is pointed at \<^verbatim>\<open>_scan_loop\<close> with
  that interval in milliseconds. For the axes \<open>(x, y)\<close>, resolution 50 for \<open>x\<close>, 100 Hz
  and the bounds 0.25 and 5, the interval is 0.5 s (500 ms).
\<close>

theorem start_sets_update_interval:
  assumes "module_state s = Idle"
    and "toggle_scan cfg hw s True (Some scan_axes) = (Returned 0, s', ev)"
  shows "module_state s' = Locked
       \<and> current_scan s' = Some scan_axes
       \<and> scan_frequency s' \<noteq> 0
       \<and> (\<exists>len. spec_line_length s' scan_axes = Some len
            \<and> scan_update_interval s' =
                max (min_scan_update_interval cfg)
                  (min (max_scan_update_interval cfg) (len / scan_frequency s'))
            \<and> (min_scan_update_interval cfg \<le> max_scan_update_interval cfg \<longrightarrow>
                 scan_update_interval s' =
                   spec_clamp (len / scan_frequency s')
                     (min_scan_update_interval cfg) (max_scan_update_interval cfg)))
       \<and> timer s' = \<lparr>timeout_handler = Scan_loop,
                      interval = py_round (scan_update_interval s' * 1000),
                      single_shot = True\<rparr>
       \<and> (scan_axes = [''x'', ''y''] \<and> map_of (scan_resolution s') ''x'' = Some 50
            \<and> scan_frequency s' = 100
            \<and> min_scan_update_interval cfg = 1 / 4 \<and> max_scan_update_interval cfg = 5 \<longrightarrow>
          scan_update_interval s' = 1 / 2 \<and> interval (timer s') = 500)"
proof -
  from assms have "toggle_scan_start cfg hw s (Some scan_axes) = (Returned 0, s', ev)"
    by (simp add: toggle_scan_def)
  from toggle_scan_start_success [OF this] obtain s3 ev3 where
    s3: "module_state s3 = Locked" "current_scan s3 = Some scan_axes"
    and len: "0 < length scan_axes" "length scan_axes < 3"
    and start: "start_scanner cfg hw s3 scan_axes ev3 = (Returned 0, s', ev)"
    by blast
  let ?lo = "min_scan_update_interval cfg" and ?hi = "max_scan_update_interval cfg"
  from start_scanner_success [OF start] obtain lp where
    lp: "line_points s3 scan_axes = Inr lp" and nz: "scan_frequency s3 \<noteq> 0"
    and s': "s' = s3\<lparr>scan_update_interval :=
                       max ?lo (min ?hi (real_of_int lp / scan_frequency s3)),
                     timer := \<lparr>timeout_handler = Scan_loop,
                                interval = py_round
                                  (max ?lo (min ?hi (real_of_int lp / scan_frequency s3)) * 1000),
                                single_shot = True\<rparr>\<rparr>"
    by blast
  have res: "scan_resolution s' = scan_resolution s3" and freq: "scan_frequency s' = scan_frequency s3"
    by (simp_all add: s')
  have "line_points s' scan_axes = line_points s3 scan_axes"
    unfolding line_points_def res ..
  with lp have "line_points s' scan_axes = Inr lp"
    by simp
  from line_points_spec [OF this len]
  have ll: "spec_line_length s' scan_axes = Some (real_of_int lp)" .
  have int: "scan_update_interval s' = max ?lo (min ?hi (real_of_int lp / scan_frequency s'))"
    by (simp add: s')
  have 1: "module_state s' = Locked" "current_scan s' = Some scan_axes" "scan_frequency s' \<noteq> 0"
    using s3 nz by (simp_all add: s')
  have 2: "\<exists>len. spec_line_length s' scan_axes = Some len
            \<and> scan_update_interval s' = max ?lo (min ?hi (len / scan_frequency s'))
            \<and> (?lo \<le> ?hi \<longrightarrow>
                 scan_update_interval s' = spec_clamp (len / scan_frequency s') ?lo ?hi)"
    using ll int by (auto simp: clamp_agrees)
  have 3: "timer s' = \<lparr>timeout_handler = Scan_loop,
                      interval = py_round (scan_update_interval s' * 1000),
                      single_shot = True\<rparr>"
    by (simp add: s')
  have 4: "scan_update_interval s' = 1 / 2 \<and> interval (timer s') = 500"
    if "scan_axes = [''x'', ''y'']" "map_of (scan_resolution s') ''x'' = Some 50"
       "scan_frequency s' = 100" "?lo = 1 / 4" "?hi = 5"
  proof -
    from ll that(1,2) have "lp = 50" by (simp add: spec_line_length_def)
    with int that have i: "scan_update_interval s' = 1 / 2" by simp
    with 3 show ?thesis by (simp add: py_round_def)
  qed
  from 1 2 3 4 show ?thesis by blast
qed

theorem start_sets_update_interval_witness:
  "module_state demo_state = Idle
   \<and> toggle_scan demo_config demo_scanner demo_state True (Some [''x'', ''y'']) =
       (Returned 0, demo_running,
        [Log_debug Scanner_started, SigStopTimer, Log_debug Timer_stopped,
         Log_debug Timer_connected, SigScanStateChanged True (Some [''x'', ''y'']),
         Log_debug Starting_scan_timer, SigStartTimer])
   \<and> map_of (scan_resolution demo_running) ''x'' = Some 50
   \<and> scan_frequency demo_running = 100
   \<and> min_scan_update_interval demo_config = 1 / 4
   \<and> max_scan_update_interval demo_config = 5
   \<and> module_state demo_running = Locked
   \<and> scan_update_interval demo_running = 1 / 2
   \<and> interval (timer demo_running) = 500"
proof -
  have idle: "module_state demo_state = Idle"
    by (simp add: demo_state_def)
  have run: "toggle_scan demo_config demo_scanner demo_state True (Some [''x'', ''y'']) =
               (Returned 0, demo_running,
                [Log_debug Scanner_started, SigStopTimer, Log_debug Timer_stopped,
                 Log_debug Timer_connected, SigScanStateChanged True (Some [''x'', ''y'']),
                 Log_debug Starting_scan_timer, SigStartTimer])"
    by (simp add: toggle_scan_def toggle_scan_start_def start_scanner_def line_points_def
          py_getitem_def py_round_def Let_def demo_running_def demo_state_def
          demo_scanner_def demo_config_def)
  have given: "map_of (scan_resolution demo_running) ''x'' = Some 50"
    "scan_frequency demo_running = 100"
    "min_scan_update_interval demo_config = 1 / 4"
    "max_scan_update_interval demo_config = 5"
    by (simp_all add: demo_running_def demo_state_def demo_config_def)
  note start = start_sets_update_interval [OF idle run]
  from start have locked: "module_state demo_running = Locked"
    by (elim conjE)
  from start have
    "[''x'', ''y''] = [''x'', ''y''] \<and> map_of (scan_resolution demo_running) ''x'' = Some 50
       \<and> scan_frequency demo_running = 100
       \<and> min_scan_update_interval demo_config = 1 / 4
       \<and> max_scan_update_interval demo_config = 5 \<longrightarrow>
     scan_update_interval demo_running = 1 / 2 \<and> interval (timer demo_running) = 500"
    by (elim conjE)
  with given have "scan_update_interval demo_running = 1 / 2"
    "interval (timer demo_running) = 500"
    by simp_all
  with idle run given locked show ?thesis
    by (intro conjI)
qed

end
